theory Spec2Isabelle
  imports
    Complex_Main
    "HOL-Library.AList"
    "HOL-Library.Char_ord"
    "HOL-Library.List_Lexorder"
    "HOL-Library.Product_Lexorder"
    "HOL-Library.Multiset"
begin

section \<open>Python values and primitive operations\<close>

text \<open>
  The payloads handled by \<^verbatim>\<open>step1_json.py\<close> and \<^verbatim>\<open>step2.7.py\<close> are
  decoded JSON documents. A value is \<^verbatim>\<open>None\<close>, a boolean, an integer, a string, a list or
  a dictionary with string keys (in insertion order). Floating-point numbers are not part
  of this value type; the floats that the code computes itself appear with the Environment
  Interpreter.

  A string is a sequence of characters, and a character is a code point below 256 (the
  Latin-1 range of Unicode), ordered by its code point. On this range the character
  classes of Python are finite and are written out: \<^verbatim>\<open>\d\<close> matches the ten ASCII digits
  only, \<^verbatim>\<open>str.isdigit\<close> also accepts the three superscript digits, white space is
  \<open>U+0009\<close> to \<open>U+000D\<close>, \<open>U+001C\<close> to \<open>U+0020\<close>, \<open>U+0085\<close> and \<open>U+00A0\<close>, and \<^verbatim>\<open>lower\<close> maps
  the letters \<open>A\<close> to \<open>Z\<close> and \<open>U+00C0\<close> to \<open>U+00DE\<close> (without the multiplication sign). Text
  with characters beyond \<open>U+00FF\<close> is outside this value type.

  The interpreter refuses to convert between an integer and a text of more than 4300
  digits (\<^verbatim>\<open>ValueError\<close>). The decoder of the payloads is subject to the same limit, so the
  integers of a payload are below it and \<^verbatim>\<open>str\<close> is total on them; the conversions from
  text to integer of the source are modelled with the limit.

  A function of the source becomes a function that returns either the exception it raises
  or its result.
\<close>

datatype json =
    JNone
  | JBool bool
  | JInt int
  | JStr string
  | JList "json list"
  | JDict "(string \<times> json) list"

datatype py_error = AttributeError | TypeError | IndexError | KeyError | ValueError | OverflowError

text \<open>Sequencing of computations that may raise: the first exception wins.\<close>

definition thenE :: "py_error + 'a \<Rightarrow> ('a \<Rightarrow> py_error + 'b) \<Rightarrow> py_error + 'b" where
  "thenE m f = (case m of Inl e \<Rightarrow> Inl e | Inr x \<Rightarrow> f x)"

text \<open>Truth value of a Python object, and \<^verbatim>\<open>a or b\<close>.\<close>

fun truthy :: "json \<Rightarrow> bool" where
  "truthy JNone = False"
| "truthy (JBool b) = b"
| "truthy (JInt i) = (i \<noteq> 0)"
| "truthy (JStr s) = (s \<noteq> [])"
| "truthy (JList xs) = (xs \<noteq> [])"
| "truthy (JDict kvs) = (kvs \<noteq> [])"

definition py_or :: "json \<Rightarrow> json \<Rightarrow> json" where
  "py_or a b = (if truthy a then a else b)"

fun is_list :: "json \<Rightarrow> bool" where
  "is_list (JList xs) = True"
| "is_list _ = False"

fun is_dict :: "json \<Rightarrow> bool" where
  "is_dict (JDict kvs) = True"
| "is_dict _ = False"


text \<open>\<^verbatim>\<open>d.get(k, default)\<close> on a dictionary, and on an arbitrary object (only a
  dictionary has the method).\<close>

definition dget :: "(string \<times> json) list \<Rightarrow> string \<Rightarrow> json \<Rightarrow> json" where
  "dget d k dflt = (case map_of d k of Some v \<Rightarrow> v | None \<Rightarrow> dflt)"

fun get :: "json \<Rightarrow> string \<Rightarrow> json \<Rightarrow> py_error + json" where
  "get (JDict d) k dflt = Inr (dget d k dflt)"
| "get _ k dflt = Inl AttributeError"

text \<open>\<^verbatim>\<open>len(x)\<close> and \<^verbatim>\<open>x[i]\<close> for a non-negative index \<open>i\<close>.\<close>

fun py_len :: "json \<Rightarrow> py_error + nat" where
  "py_len (JStr s) = Inr (length s)"
| "py_len (JList xs) = Inr (length xs)"
| "py_len (JDict kvs) = Inr (length kvs)"
| "py_len _ = Inl TypeError"

fun index :: "json \<Rightarrow> nat \<Rightarrow> py_error + json" where
  "index (JList xs) i = (if i < length xs then Inr (xs ! i) else Inl IndexError)"
| "index (JStr s) i = (if i < length s then Inr (JStr [s ! i]) else Inl IndexError)"
| "index (JDict kvs) i = Inl KeyError"
| "index _ i = Inl TypeError"

text \<open>\<^verbatim>\<open>x[k]\<close> for a string key \<open>k\<close>.\<close>

fun subscript :: "json \<Rightarrow> string \<Rightarrow> py_error + json" where
  "subscript (JDict d) k = (case map_of d k of Some v \<Rightarrow> Inr v | None \<Rightarrow> Inl KeyError)"
| "subscript _ k = Inl TypeError"

subsection \<open>\<^verbatim>\<open>str\<close> and \<^verbatim>\<open>repr\<close>\<close>

definition digit_char :: "nat \<Rightarrow> char" where
  "digit_char d = char_of (of_char (CHR ''0'') + d)"

fun nat_digits :: "nat \<Rightarrow> string" where
  "nat_digits n = (if n < 10 then [digit_char n] else nat_digits (n div 10) @ [digit_char (n mod 10)])"

definition int_str :: "int \<Rightarrow> string" where
  "int_str i = (if i < 0 then CHR ''-'' # nat_digits (nat (- i)) else nat_digits (nat i))"

definition hex_char :: "nat \<Rightarrow> char" where
  "hex_char d = (if d < 10 then digit_char d else char_of (of_char (CHR ''a'') + (d - 10)))"

text \<open>\<^verbatim>\<open>repr\<close> of a string: single quotes unless the text has a single quote and no double
  quote; the quote and the backslash are escaped, and the characters that are not
  printable (the control characters, \<open>U+007F\<close> to \<open>U+00A0\<close> and \<open>U+00AD\<close>) are written as
  escapes.\<close>

definition repr_char :: "char \<Rightarrow> char \<Rightarrow> string" where
  "repr_char q c =
     (if c = q \<or> c = CHR 0x5C then [CHR 0x5C, c]
      else if c = CHR 0x09 then [CHR 0x5C, CHR ''t'']
      else if c = CHR 0x0A then [CHR 0x5C, CHR ''n'']
      else if c = CHR 0x0D then [CHR 0x5C, CHR ''r'']
      else if (of_char c :: nat) < 32 \<or> (127 \<le> (of_char c :: nat) \<and> (of_char c :: nat) \<le> 160) \<or>
              (of_char c :: nat) = 173
        then [CHR 0x5C, CHR ''x'', hex_char (of_char c div 16), hex_char (of_char c mod 16)]
      else [c])"

definition repr_str :: "string \<Rightarrow> string" where
  "repr_str s =
     (let q = (if CHR 0x27 \<in> set s \<and> CHR 0x22 \<notin> set s then CHR 0x22 else CHR 0x27)
      in [q] @ concat (map (repr_char q) s) @ [q])"

fun join :: "string \<Rightarrow> string list \<Rightarrow> string" where
  "join sep [] = []"
| "join sep [x] = x"
| "join sep (x # y # ys) = x @ sep @ join sep (y # ys)"

fun py_repr :: "json \<Rightarrow> string" where
  "py_repr JNone = ''None''"
| "py_repr (JBool b) = (if b then ''True'' else ''False'')"
| "py_repr (JInt i) = int_str i"
| "py_repr (JStr s) = repr_str s"
| "py_repr (JList xs) = ''['' @ join '', '' (map py_repr xs) @ '']''"
| "py_repr (JDict kvs) =
     ''{'' @ join '', '' (map (\<lambda>(k, v). repr_str k @ '': '' @ py_repr v) kvs) @ ''}''"

fun py_str :: "json \<Rightarrow> string" where
  "py_str (JStr s) = s"
| "py_str v = py_repr v"

subsection \<open>Iteration, loops and character classes\<close>

text \<open>The items a \<^verbatim>\<open>for\<close> loop visits: the elements of a list, the keys of a dictionary,
  the characters of a string; any other value is not iterable.\<close>

fun iterate :: "json \<Rightarrow> py_error + json list" where
  "iterate (JList xs) = Inr xs"
| "iterate (JDict kvs) = Inr (map (\<lambda>kv. JStr (fst kv)) kvs)"
| "iterate (JStr s) = Inr (map (\<lambda>c. JStr [c]) s)"
| "iterate _ = Inl TypeError"

fun items :: "json \<Rightarrow> json list" where
  "items (JList xs) = xs"
| "items _ = []"

text \<open>The entries of a value known to be a dictionary.\<close>

fun items_of :: "json \<Rightarrow> (string \<times> json) list" where
  "items_of (JDict kvs) = kvs"
| "items_of _ = []"

text \<open>A loop whose body may raise: the state is threaded through the items, and the first
  exception ends the loop.\<close>

fun foldE :: "('s \<Rightarrow> 'a \<Rightarrow> py_error + 's) \<Rightarrow> 's \<Rightarrow> 'a list \<Rightarrow> py_error + 's" where
  "foldE f s [] = Inr s"
| "foldE f s (x # xs) = thenE (f s x) (\<lambda>s'. foldE f s' xs)"

definition is_digit :: "char \<Rightarrow> bool" where
  "is_digit c = (CHR ''0'' \<le> c \<and> c \<le> CHR ''9'')"

definition digit_value :: "char \<Rightarrow> int" where
  "digit_value c = int (of_char c) - 48"

definition int_of_digits :: "string \<Rightarrow> int" where
  "int_of_digits ds = foldl (\<lambda>a c. 10 * a + digit_value c) 0 ds"

text \<open>\<^verbatim>\<open>int(s)\<close> for a text \<open>s\<close>: white space around the number is dropped (here the file
  separators \<open>U+001C\<close> to \<open>U+001F\<close> do not count as white space), a sign may come first,
  and the digits may be grouped by single underscores. The value of a text of more than
  4300 digits is refused.\<close>

definition max_str_digits :: nat where
  "max_str_digits = 4300"

definition int_space :: "char \<Rightarrow> bool" where
  "int_space c = ((CHR 0x09 \<le> c \<and> c \<le> CHR 0x0D) \<or> c = CHR 0x20 \<or> c = CHR 0x85 \<or> c = CHR 0xA0)"

fun digit_groups :: "string \<Rightarrow> string \<Rightarrow> string option" where
  "digit_groups acc [] = Some acc"
| "digit_groups acc (c # cs) =
     (if is_digit c then digit_groups (acc @ [c]) cs
      else if c = CHR ''_'' \<and> acc \<noteq> [] \<and> cs \<noteq> [] \<and> is_digit (hd cs) then digit_groups acc cs
      else None)"

definition int_digits :: "string \<Rightarrow> py_error + int" where
  "int_digits ds = (if length ds > max_str_digits then Inl ValueError else Inr (int_of_digits ds))"

definition int_text :: "string \<Rightarrow> py_error + int" where
  "int_text s =
     (let t = rev (dropWhile int_space (rev (dropWhile int_space s)));
          negative = (t \<noteq> [] \<and> hd t = CHR ''-'');
          body = (if t \<noteq> [] \<and> (hd t = CHR ''-'' \<or> hd t = CHR ''+'') then tl t else t)
      in case digit_groups [] body of
           None \<Rightarrow> Inl ValueError
         | Some ds \<Rightarrow>
             if ds = [] then Inl ValueError
             else thenE (int_digits ds) (\<lambda>n. Inr (if negative then - n else n)))"

definition lower_char :: "char \<Rightarrow> char" where
  "lower_char c =
     (if (CHR ''A'' \<le> c \<and> c \<le> CHR ''Z'') \<or> (CHR 0xC0 \<le> c \<and> c \<le> CHR 0xDE \<and> c \<noteq> CHR 0xD7)
      then char_of (of_char c + (32::nat)) else c)"

text \<open>\<^verbatim>\<open>upper\<close> and the test for a letter are needed for \<^verbatim>\<open>title\<close> only, which the source
  applies to the country names of its own table: texts of ASCII letters and spaces.\<close>

definition upper_char :: "char \<Rightarrow> char" where
  "upper_char c = (if CHR ''a'' \<le> c \<and> c \<le> CHR ''z'' then char_of (of_char c - (32::nat)) else c)"

definition is_alpha :: "char \<Rightarrow> bool" where
  "is_alpha c = ((CHR ''a'' \<le> c \<and> c \<le> CHR ''z'') \<or> (CHR ''A'' \<le> c \<and> c \<le> CHR ''Z''))"

definition lower :: "string \<Rightarrow> string" where
  "lower s = map lower_char s"

text \<open>\<^verbatim>\<open>x.lower()\<close> on an arbitrary object: only a string has the method.\<close>

fun py_lower :: "json \<Rightarrow> py_error + string" where
  "py_lower (JStr s) = Inr (lower s)"
| "py_lower _ = Inl AttributeError"

text \<open>\<^verbatim>\<open>needle in haystack\<close> for strings.\<close>

fun starts_with :: "string \<Rightarrow> string \<Rightarrow> bool" where
  "starts_with s [] = True"
| "starts_with [] (c # cs) = False"
| "starts_with (x # xs) (c # cs) = (x = c \<and> starts_with xs cs)"

fun contains :: "string \<Rightarrow> string \<Rightarrow> bool" where
  "contains [] needle = (needle = [])"
| "contains (c # cs) needle = (starts_with (c # cs) needle \<or> contains cs needle)"


section \<open>Floating-point numbers\<close>

text \<open>
  A float of the interpreter is an IEEE 754 binary64 number: a finite number, given by its
  exact rational value (\<open>Finite 0\<close> is the positive zero), the negative zero, an infinity or
  ``not a number''. Every operation on floats computes the exact rational result and
  rounds it to the nearest binary64 number, ties to the even significand; a result of
  magnitude \<open>2\<^sup>1\<^sup>0\<^sup>2\<^sup>4 - 2\<^sup>9\<^sup>7\<^sup>0\<close> or more is an infinity.
\<close>

datatype float64 = Finite rat | NegZero | PosInf | NegInf | NaN

fun ilog2 :: "nat \<Rightarrow> nat" where
  "ilog2 n = (if n < 2 then 0 else Suc (ilog2 (n div 2)))"

definition pow2 :: "int \<Rightarrow> rat" where
  "pow2 e = (if 0 \<le> e then 2 ^ nat e else 1 / 2 ^ nat (- e))"

text \<open>\<open>\<lfloor>log\<^sub>2 q\<rfloor>\<close> for a positive rational \<open>q\<close>.\<close>

definition floor_log2 :: "rat \<Rightarrow> int" where
  "floor_log2 q =
     (let e = int (ilog2 (nat (fst (quotient_of q)))) - int (ilog2 (nat (snd (quotient_of q))))
      in if pow2 e \<le> q then e else e - 1)"

definition round_half_even :: "rat \<Rightarrow> int" where
  "round_half_even x =
     (let f = \<lfloor>x\<rfloor>; r = x - of_int f
      in if r < 1 / 2 then f else if 1 / 2 < r then f + 1 else if even f then f else f + 1)"

text \<open>The binary64 number nearest to a positive rational: the significand has 53 bits,
  and the least exponent of its last bit is \<open>-1074\<close>.\<close>

definition round_pos :: "rat \<Rightarrow> float64" where
  "round_pos q =
     (let p = max (floor_log2 q - 52) (- 1074);
          v = of_int (round_half_even (q / pow2 p)) * pow2 p
      in if pow2 1024 \<le> v then PosInf else Finite v)"

fun fneg :: "float64 \<Rightarrow> float64" where
  "fneg (Finite q) = (if q = 0 then NegZero else Finite (- q))"
| "fneg NegZero = Finite 0"
| "fneg PosInf = NegInf"
| "fneg NegInf = PosInf"
| "fneg NaN = NaN"

definition round64 :: "rat \<Rightarrow> float64" where
  "round64 q = (if q = 0 then Finite 0 else if q < 0 then fneg (round_pos (- q)) else round_pos q)"

text \<open>The sign of a float (true for the negative zero and the negative numbers), and
  \<^verbatim>\<open>x == 0\<close>.\<close>

fun fnegative :: "float64 \<Rightarrow> bool" where
  "fnegative (Finite q) = (q < 0)"
| "fnegative NegZero = True"
| "fnegative NegInf = True"
| "fnegative _ = False"

fun fzero :: "float64 \<Rightarrow> bool" where
  "fzero (Finite q) = (q = 0)"
| "fzero NegZero = True"
| "fzero _ = False"

text \<open>\<^verbatim>\<open>x * y\<close> for two floats.\<close>

fun fvalue :: "float64 \<Rightarrow> rat" where
  "fvalue (Finite q) = q"
| "fvalue _ = 0"

fun ffinite :: "float64 \<Rightarrow> bool" where
  "ffinite (Finite q) = True"
| "ffinite NegZero = True"
| "ffinite _ = False"

definition fmul :: "float64 \<Rightarrow> float64 \<Rightarrow> float64" where
  "fmul x y =
     (if x = NaN \<or> y = NaN then NaN
      else if ffinite x \<and> ffinite y then
        (if fzero x \<or> fzero y then (if fnegative x \<noteq> fnegative y then NegZero else Finite 0)
         else round64 (fvalue x * fvalue y))
      else if fzero x \<or> fzero y then NaN
      else if fnegative x \<noteq> fnegative y then NegInf else PosInf)"

text \<open>\<^verbatim>\<open>x + y\<close> for two floats; an exact sum of zero has the sign of the operands when they
  agree and is positive otherwise.\<close>

definition fadd :: "float64 \<Rightarrow> float64 \<Rightarrow> float64" where
  "fadd x y =
     (if x = NaN \<or> y = NaN then NaN
      else if ffinite x \<and> ffinite y then
        (if fvalue x + fvalue y = 0
           then (if fnegative x \<and> fnegative y \<and> fzero x then NegZero else Finite 0)
         else round64 (fvalue x + fvalue y))
      else if ffinite x then y
      else if ffinite y then x
      else if x = y then x else NaN)"

text \<open>The order of a float and a rational number (an integer of the source): \<^verbatim>\<open>x < k\<close>.\<close>

fun flt :: "float64 \<Rightarrow> rat \<Rightarrow> bool" where
  "flt (Finite q) k = (q < k)"
| "flt NegZero k = (0 < k)"
| "flt PosInf k = False"
| "flt NegInf k = True"
| "flt NaN k = False"

subsection \<open>\<^verbatim>\<open>repr\<close> of a float\<close>

text \<open>
  \<^verbatim>\<open>repr(x)\<close> (which is also \<^verbatim>\<open>str(x)\<close> and the text an f-string puts for \<open>x\<close>) is the
  shortest decimal numeral that rounds to \<open>x\<close>; among the numerals of that length it is
  the one nearest to \<open>x\<close>. With \<open>n\<close> digits \<open>d\<close> and the decimal point after \<open>k\<close> of them, the
  numeral is written without exponent when \<open>-4 < k \<le> 16\<close> and as
  \<open>d\<^sub>1.d\<^sub>2\<dots>d\<^sub>ne\<plusminus>xx\<close> otherwise.
\<close>

text \<open>\<open>\<lfloor>log\<^sub>1\<^sub>0 q\<rfloor>\<close> for a positive rational \<open>q\<close>: the estimate from the binary logarithm is at
  most one too small or too large.\<close>

definition pow10 :: "int \<Rightarrow> rat" where
  "pow10 e = (if 0 \<le> e then 10 ^ nat e else 1 / 10 ^ nat (- e))"

definition floor_log10 :: "rat \<Rightarrow> int" where
  "floor_log10 q =
     (let e = (floor_log2 q * 30103) div 100000
      in if q < pow10 e then e - 1 else if pow10 (e + 1) \<le> q then e + 1 else e)"

text \<open>The numeral of \<open>n\<close> digits for a positive binary64 number \<open>q\<close>, if there is one: its
  digits and the number of digits before the decimal point. The two candidates are the
  numerals of \<open>n\<close> digits next to \<open>q\<close>.\<close>

definition numeral_of :: "rat \<Rightarrow> nat \<Rightarrow> (string \<times> int) option" where
  "numeral_of q n =
     (let k = floor_log10 q;
          scale = pow10 (k - int n + 1);
          lo = \<lfloor>q / scale\<rfloor>;
          hi = lo + 1;
          lo_ok = (round64 (of_int lo * scale) = Finite q);
          hi_ok = (round64 (of_int hi * scale) = Finite q);
          pick_hi = (hi_ok \<and> (\<not> lo_ok \<or> of_int hi * scale - q < q - of_int lo * scale));
          ds = nat_digits (nat (if pick_hi then hi else lo))
      in if lo_ok \<or> hi_ok then Some (ds, k + 1 + (int (length ds) - int n)) else None)"

text \<open>The shortest numeral: seventeen digits always suffice.\<close>

fun shortest :: "rat \<Rightarrow> nat \<Rightarrow> nat \<Rightarrow> string \<times> int" where
  "shortest q n 0 = ([], 0)"
| "shortest q n (Suc fuel) =
     (case numeral_of q n of Some r \<Rightarrow> r | None \<Rightarrow> shortest q (Suc n) fuel)"

definition strip_zeros :: "string \<Rightarrow> string" where
  "strip_zeros ds = rev (dropWhile (\<lambda>c. c = CHR ''0'') (rev ds))"

definition pos_repr :: "rat \<Rightarrow> string" where
  "pos_repr q =
     (let ds = strip_zeros (fst (shortest q 1 17));
          k = snd (shortest q 1 17)
      in if - 4 < k \<and> k \<le> 16 then
           (if k \<le> 0 then ''0.'' @ replicate (nat (- k)) CHR ''0'' @ ds
            else if int (length ds) \<le> k then ds @ replicate (nat k - length ds) CHR ''0'' @ ''.0''
            else take (nat k) ds @ ''.'' @ drop (nat k) ds)
         else
           (take 1 ds @ (if length ds > 1 then ''.'' @ drop 1 ds else [])
            @ ''e'' @ (if k - 1 < 0 then ''-'' else ''+'')
            @ (if \<bar>k - 1\<bar> < 10 then ''0'' else []) @ nat_digits (nat \<bar>k - 1\<bar>)))"

fun float_repr :: "float64 \<Rightarrow> string" where
  "float_repr (Finite q) =
     (if q = 0 then ''0.0'' else if q < 0 then ''-'' @ pos_repr (- q) else pos_repr q)"
| "float_repr NegZero = ''-0.0''"
| "float_repr PosInf = ''inf''"
| "float_repr NegInf = ''-inf''"
| "float_repr NaN = ''nan''"
subsection \<open>Equality, ordering and sorting\<close>

text \<open>\<^verbatim>\<open>a == b\<close>: booleans are the integers 0 and 1, lists are equal elementwise, and two
  dictionaries are equal when they have the same number of keys and every key of the
  first has an equal value in the second.\<close>

fun as_int :: "json \<Rightarrow> int option" where
  "as_int (JInt i) = Some i"
| "as_int (JBool b) = Some (if b then 1 else 0)"
| "as_int _ = None"

fun py_eq :: "json \<Rightarrow> json \<Rightarrow> bool" where
  "py_eq (JList xs) (JList ys) = list_all2 py_eq xs ys"
| "py_eq (JDict a) (JDict b) =
     (length a = length b \<and>
      list_all (\<lambda>(k, v). case map_of b k of Some w \<Rightarrow> py_eq v w | None \<Rightarrow> False) a)"
| "py_eq JNone JNone = True"
| "py_eq (JStr s) (JStr t) = (s = t)"
| "py_eq a b = (case (as_int a, as_int b) of (Some i, Some j) \<Rightarrow> i = j | _ \<Rightarrow> False)"

text \<open>\<^verbatim>\<open>a < b\<close>: numbers by value, strings and lists lexicographically; any other pair of
  types raises \<^verbatim>\<open>TypeError\<close>. A list comparison looks for the first position where the
  items differ and compares those.\<close>

fun py_lt :: "json \<Rightarrow> json \<Rightarrow> py_error + bool"
  and lt_list :: "json list \<Rightarrow> json list \<Rightarrow> py_error + bool" where
  "py_lt (JList xs) (JList ys) = lt_list xs ys"
| "py_lt (JStr s) (JStr t) = Inr (s < t)"
| "py_lt a b = (case (as_int a, as_int b) of (Some i, Some j) \<Rightarrow> Inr (i < j) | _ \<Rightarrow> Inl TypeError)"
| "lt_list [] [] = Inr False"
| "lt_list [] (y # ys) = Inr True"
| "lt_list (x # xs) [] = Inr False"
| "lt_list (x # xs) (y # ys) = (if py_eq x y then lt_list xs ys else py_lt x y)"

text \<open>Only \<^verbatim>\<open>None\<close>, booleans, integers and strings can be dictionary keys or set members.\<close>

fun hashable :: "json \<Rightarrow> bool" where
  "hashable (JList xs) = False"
| "hashable (JDict kvs) = False"
| "hashable _ = True"

text \<open>
  \<^verbatim>\<open>sorted\<close> and \<^verbatim>\<open>list.sort\<close> are stable and use only \<^verbatim>\<open>lt\<close>, the comparison \<^verbatim>\<open><\<close> of the
  items (or of their keys). They are modelled by the stable insertion sort: an item moves
  behind the items that are smaller than it, and an exception of a comparison ends the
  sort.
\<close>

fun insort_lt :: "('a \<Rightarrow> 'a \<Rightarrow> py_error + bool) \<Rightarrow> 'a \<Rightarrow> 'a list \<Rightarrow> py_error + 'a list" where
  "insort_lt lt x [] = Inr [x]"
| "insort_lt lt x (y # ys) =
     thenE (lt y x) (\<lambda>smaller.
       if smaller then thenE (insort_lt lt x ys) (\<lambda>r. Inr (y # r)) else Inr (x # y # ys))"

fun sort_lt :: "('a \<Rightarrow> 'a \<Rightarrow> py_error + bool) \<Rightarrow> 'a list \<Rightarrow> py_error + 'a list" where
  "sort_lt lt [] = Inr []"
| "sort_lt lt (x # xs) = thenE (sort_lt lt xs) (insort_lt lt x)"

section \<open>Payload Accessor\<close>

text \<open>
  \<^verbatim>\<open>
  def first_result(mapping: dict, key):
      wrap = mapping.get(str(key)) if key is not None else None
      if isinstance(wrap, dict):
          res = wrap.get("results") or wrap.get("result") or []
          return res[0] if isinstance(res, list) and res else {}
      return {}
  \<close>
  The side table \<open>mapping\<close> is annotated as a dictionary; the entry looked up (the
  envelope) is any value.
\<close>

definition first_result :: "json \<Rightarrow> json \<Rightarrow> py_error + json" where
  "first_result mapping key =
     thenE (if key \<noteq> JNone then get mapping (py_str key) JNone else Inr JNone) (\<lambda>wrap.
       if is_dict wrap then
         thenE (get wrap ''results'' JNone) (\<lambda>r1.
         thenE (get wrap ''result'' JNone) (\<lambda>r2.
           let res = py_or (py_or r1 r2) (JList []) in
           if is_list res \<and> truthy res then index res 0 else Inr (JDict [])))
       else Inr (JDict []))"

text \<open>
  \<^verbatim>\<open>
  def extract_status_id(match):
      """Extract status_id from match data, checking multiple locations"""
      return match.get("status_id") or (match.get("score", [None, None])[1]
          if isinstance(match.get("score"), list) and len(match.get("score", [])) > 1
          else None)
  \<close>
\<close>

definition extract_status_id :: "json \<Rightarrow> py_error + json" where
  "extract_status_id match =
     thenE (get match ''status_id'' JNone) (\<lambda>sid.
       if truthy sid then Inr sid
       else
         thenE (get match ''score'' JNone) (\<lambda>sc.
           if is_list sc then
             thenE (get match ''score'' (JList [])) (\<lambda>sc'.
             thenE (py_len sc') (\<lambda>n.
               if n > 1 then
                 thenE (get match ''score'' (JList [JNone, JNone])) (\<lambda>sc''. index sc'' 1)
               else Inr JNone))
           else Inr JNone))"

section \<open>Odds Time-Window Selector\<close>

text \<open>
  \<^verbatim>\<open>
  def _safe_minute(v):
      if v is None:
          return None
      m = re.match(r"(\d+)", str(v))
      return int(m.group(1)) if m else None
  \<close>
  The pattern takes the longest run of digits at the start of \<^verbatim>\<open>str(v)\<close>; \<^verbatim>\<open>int\<close> raises
  \<^verbatim>\<open>ValueError\<close> when the run has more than 4300 digits.
\<close>

definition safe_minute :: "json \<Rightarrow> py_error + int option" where
  "safe_minute v =
     (if v = JNone then Inr None
      else let g = takeWhile is_digit (py_str v)
           in if g = [] then Inr None else thenE (int_text g) (\<lambda>n. Inr (Some n)))"

text \<open>\<^verbatim>\<open>min(xs, key=f)\<close>: the first item whose key is least; an empty sequence raises
  \<^verbatim>\<open>ValueError\<close>.\<close>

fun min_by :: "('a \<Rightarrow> 'k::linorder) \<Rightarrow> 'a list \<Rightarrow> py_error + 'a" where
  "min_by key [] = Inl ValueError"
| "min_by key (x # xs) = Inr (foldl (\<lambda>best y. if key y < key best then y else best) x xs)"

text \<open>A comprehension or a \<^verbatim>\<open>key\<close> function applied to every item, stopping at the first
  exception.\<close>

fun mapE :: "('a \<Rightarrow> py_error + 'b) \<Rightarrow> 'a list \<Rightarrow> py_error + 'b list" where
  "mapE f [] = Inr []"
| "mapE f (x # xs) = thenE (f x) (\<lambda>y. thenE (mapE f xs) (\<lambda>ys. Inr (y # ys)))"

text \<open>
  \<^verbatim>\<open>
  def filter_by_time(entries):
      pts = [(_safe_minute(ent[1]), ent) for ent in entries
             if isinstance(ent, (list, tuple)) and len(ent) > 1]
      pts = [(m, e) for m, e in pts if m is not None]
      in_window = [e for m, e in pts if 3 <= m <= 6]
      if in_window:
          return in_window
      under_ten = [(m, e) for m, e in pts if m < 10]
      return [] if not under_ten else [min(under_ten, key=lambda t: abs(t[0] - 4.5))[1]]
  \<close>
  The key \<^verbatim>\<open>abs(t[0] - 4.5)\<close> is a float; for the integers below ten that reach it (the
  negative ones have no leading digit) the float is the exact rational \<open>\<bar>m - 9/2\<bar>\<close>.
\<close>

definition time_key :: "int \<times> json \<Rightarrow> rat" where
  "time_key t = \<bar>of_int (fst t) - 9 / 2\<bar>"

definition filter_by_time :: "json list \<Rightarrow> py_error + json list" where
  "filter_by_time entries =
     thenE (mapE (\<lambda>ent. thenE (safe_minute (items ent ! 1)) (\<lambda>m. Inr (m, ent)))
              [ent. ent \<leftarrow> entries, is_list ent \<and> length (items ent) > 1]) (\<lambda>pts.
       let pts = [(the m, e). (m, e) \<leftarrow> pts, m \<noteq> None];
           in_window = [e. (m, e) \<leftarrow> pts, 3 \<le> m \<and> m \<le> 6]
       in if in_window \<noteq> [] then Inr in_window
          else
            let under_ten = [(m, e). (m, e) \<leftarrow> pts, m < 10]
            in if under_ten = [] then Inr []
               else thenE (min_by time_key under_ten) (\<lambda>t. Inr [snd t]))"


subsection \<open>The selection as the specification words it\<close>

text \<open>
  The following definitions do not come from the source. They say in the words of the
  specification what the minute of an odds entry is: the entry is a sequence whose second
  item is the minute marker, and the minute is the leading integer of the marker's text,
  that is, the number written by the decimal digits the text begins with. A marker such as
  \<open>4+\<close> or \<open>45+2\<close> has the leading integer 4 or 45; a marker such as \<open>HT\<close> or \<open>HT4\<close>, an empty
  text or \<^verbatim>\<open>None\<close> has none.
\<close>

fun leading_digits :: "string \<Rightarrow> string" where
  "leading_digits [] = []"
| "leading_digits (c # cs) = (if c \<in> set ''0123456789'' then c # leading_digits cs else [])"

text \<open>The number written by a sequence of decimal digits, from its last digit (the units)
  to its first.\<close>

fun units_first :: "string \<Rightarrow> int" where
  "units_first [] = 0"
| "units_first (d # ds) = (int (of_char d) - int (of_char (CHR ''0''))) + 10 * units_first ds"

definition decimal :: "string \<Rightarrow> int" where
  "decimal ds = units_first (rev ds)"

definition leading_integer :: "string \<Rightarrow> int option" where
  "leading_integer s = (if leading_digits s = [] then None else Some (decimal (leading_digits s)))"

text \<open>The minute marker of an entry, where it has one, and the parsed minute of an entry.\<close>

fun marker :: "json \<Rightarrow> json option" where
  "marker (JList (t # m # rest)) = Some m"
| "marker _ = None"

definition minute_of :: "json \<Rightarrow> int option" where
  "minute_of ent = (case marker ent of Some m \<Rightarrow> leading_integer (py_str m) | None \<Rightarrow> None)"

definition in_window :: "json \<Rightarrow> bool" where
  "in_window ent = (case minute_of ent of Some m \<Rightarrow> 3 \<le> m \<and> m \<le> 6 | None \<Rightarrow> False)"

definition under_ten :: "json \<Rightarrow> bool" where
  "under_ten ent = (case minute_of ent of Some m \<Rightarrow> m < 10 | None \<Rightarrow> False)"


text \<open>The number of digits of the leading integer of an entry's marker (0 when there is
  none).\<close>

definition marker_digits :: "json \<Rightarrow> nat" where
  "marker_digits ent = (case marker ent of Some m \<Rightarrow> length (leading_digits (py_str m)) | None \<Rightarrow> 0)"
section \<open>Odds block of the Match Summarizer\<close>

text \<open>
  The first loop of \<^verbatim>\<open>extract_odds\<close>:
  \<^verbatim>\<open>
      for key, idxs in [("eu", (2,3,4)), ("asia", (2,3,4)), ("bs", (2,3,4))]:
          entry = (filter_by_time(raw_odds.get(key, [])) or [None])[0]
          if entry and len(entry) >= max(idxs) + 1:
              if key == "eu":
                  data["full_time_result"] = {
                      "home": entry[2], "draw": entry[3], "away": entry[4],
                      "timestamp": entry[0], "match_time": entry[1]}
              elif key == "asia":
                  data["spread"] = {
                      "handicap": entry[3], "home": entry[2], "away": entry[4],
                      "timestamp": entry[0], "match_time": entry[1]}
              else:
                  line = entry[3]
                  data["over_under"][str(line)] = {
                      "line": line, "over": entry[2], "under": entry[4],
                      "timestamp": entry[0], "match_time": entry[1]}
                  data["primary_over_under"] = data["over_under"][str(line)]
  \<close>
\<close>

definition odds_step :: "json \<Rightarrow> (string \<times> json) list \<Rightarrow> string \<Rightarrow> py_error + (string \<times> json) list" where
  "odds_step raw_odds data key =
     thenE (get raw_odds key (JList [])) (\<lambda>series.
     thenE (iterate series) (\<lambda>entries.
     thenE (filter_by_time entries) (\<lambda>selected.
       let entry = (case selected of [] \<Rightarrow> JNone | e # _ \<Rightarrow> e) in
       if truthy entry \<and> length (items entry) \<ge> 5 then
         (let e = items entry in
          if key = ''eu'' then
            Inr (AList.update ''full_time_result''
                  (JDict [(''home'', e ! 2), (''draw'', e ! 3), (''away'', e ! 4),
                          (''timestamp'', e ! 0), (''match_time'', e ! 1)]) data)
          else if key = ''asia'' then
            Inr (AList.update ''spread''
                  (JDict [(''handicap'', e ! 3), (''home'', e ! 2), (''away'', e ! 4),
                          (''timestamp'', e ! 0), (''match_time'', e ! 1)]) data)
          else
            (let line = e ! 3;
                 row = JDict [(''line'', line), (''over'', e ! 2), (''under'', e ! 4),
                              (''timestamp'', e ! 0), (''match_time'', e ! 1)]
             in Inr (AList.update ''primary_over_under'' row
                    (AList.update ''over_under''
                       (JDict (AList.update (py_str line) row
                                 (items_of (dget data ''over_under'' (JDict []))))) data))))
       else Inr data)))"

text \<open>
  The second loop of \<^verbatim>\<open>extract_odds\<close>:
  \<^verbatim>\<open>
      for m in match.get("betting", {}).get("markets", []):
          if m.get("name") == "Both Teams to Score":
              for sel in m.get("selections", []):
                  nm = sel.get("name", "").lower()
                  if nm in ("yes", "no"):
                      data["both_teams_to_score"][nm] = sel.get("odds")
  \<close>
  \<open>selection_step\<close> and \<open>market_step\<close> are the bodies of the inner and the outer loop on the
  dictionary \<^verbatim>\<open>data["both_teams_to_score"]\<close>.
\<close>

definition selection_step :: "(string \<times> json) list \<Rightarrow> json \<Rightarrow> py_error + (string \<times> json) list" where
  "selection_step btts sel =
     thenE (get sel ''name'' (JStr [])) (\<lambda>name.
     thenE (py_lower name) (\<lambda>nm.
       if nm = ''yes'' \<or> nm = ''no'' then
         thenE (get sel ''odds'' JNone) (\<lambda>odds. Inr (AList.update nm odds btts))
       else Inr btts))"

definition market_step :: "(string \<times> json) list \<Rightarrow> json \<Rightarrow> py_error + (string \<times> json) list" where
  "market_step btts m =
     thenE (get m ''name'' JNone) (\<lambda>name.
       if py_eq name (JStr ''Both Teams to Score'') then
         thenE (get m ''selections'' (JList [])) (\<lambda>selections.
         thenE (iterate selections) (\<lambda>sels. foldE selection_step btts sels))
       else Inr btts)"

text \<open>
  \<^verbatim>\<open>
  def extract_odds(match: dict) -> dict:
      raw_odds = match.get("odds", {}) or {}
      data = {
          "full_time_result": {},
          "both_teams_to_score": {},
          "over_under": {},
          "spread": {},
          "raw": raw_odds
      }
      ...
      return data
  \<close>
\<close>

definition extract_odds :: "(string \<times> json) list \<Rightarrow> py_error + (string \<times> json) list" where
  "extract_odds match =
     (let raw_odds = py_or (dget match ''odds'' (JDict [])) (JDict []);
          data = [(''full_time_result'', JDict []), (''both_teams_to_score'', JDict []),
                  (''over_under'', JDict []), (''spread'', JDict []), (''raw'', raw_odds)]
      in thenE (foldE (odds_step raw_odds) data [''eu'', ''asia'', ''bs'']) (\<lambda>data.
         thenE (get (dget match ''betting'' (JDict [])) ''markets'' (JList [])) (\<lambda>markets.
         thenE (iterate markets) (\<lambda>ms.
         thenE (foldE market_step (items_of (dget data ''both_teams_to_score'' (JDict []))) ms) (\<lambda>btts.
           Inr (AList.update ''both_teams_to_score'' (JDict btts) data))))))"


definition field :: "json \<Rightarrow> string \<Rightarrow> json \<Rightarrow> json" where
  "field v k dflt = dget (items_of v) k dflt"



section \<open>Country Inference\<close>

text \<open>\<^verbatim>\<open>s.title()\<close>: the first letter of every run of letters in upper case, the other
  letters in lower case.\<close>

fun title_from :: "bool \<Rightarrow> string \<Rightarrow> string" where
  "title_from prev [] = []"
| "title_from prev (c # cs) =
     (if is_alpha c then (if prev then lower_char c else upper_char c) # title_from True cs
      else c # title_from False cs)"

definition title :: "string \<Rightarrow> string" where
  "title s = title_from False s"

text \<open>The table \<^verbatim>\<open>country_indicators\<close> of \<^verbatim>\<open>infer_country_from_teams\<close>, in the order of
  the dictionary literal.\<close>

definition country_indicators :: "(string \<times> string list) list" where
  "country_indicators =
    [(''australia'', [''australia'', ''aussie'', ''socceroos'', ''matildas'']),
     (''argentina'', [''argentina'', ''boca'', ''river plate'', ''racing club'']),
     (''brazil'', [''brazil'', ''sao paulo'', ''flamengo'', ''corinthians'', ''palmeiras'']),
     (''england'', [''england'', ''manchester'', ''liverpool'', ''chelsea'', ''arsenal'', ''tottenham'']),
     (''spain'', [''spain'', ''real madrid'', ''barcelona'', ''atletico'', ''sevilla'', ''valencia'']),
     (''germany'', [''germany'', ''bayern'', ''borussia'', ''schalke'', ''hamburg'']),
     (''france'', [''france'', ''psg'', ''marseille'', ''lyon'', ''monaco'', ''saint-etienne'']),
     (''italy'', [''italy'', ''juventus'', ''inter'', ''milan'', ''roma'', ''napoli'', ''lazio'']),
     (''netherlands'', [''netherlands'', ''ajax'', ''psv'', ''feyenoord'']),
     (''portugal'', [''portugal'', ''porto'', ''benfica'', ''sporting'']),
     (''mexico'', [''mexico'', ''america'', ''guadalajara'', ''cruz azul'', ''pumas'']),
     (''usa'', [''usa'', ''united states'', ''la galaxy'', ''seattle sounders'', ''new york'']),
     (''south korea'', [''korea'', ''seoul'', ''busan'', ''daegu'']),
     (''japan'', [''japan'', ''tokyo'', ''osaka'', ''yokohama'', ''kashima'']),
     (''china'', [''china'', ''beijing'', ''shanghai'', ''guangzhou'']),
     (''russia'', [''russia'', ''moscow'', ''spartak'', ''cska'', ''dynamo'', ''zenit'']),
     (''norway'', [''norway'', ''oslo'', ''bergen'']),
     (''czech republic'', [''czech'', ''praha'', ''prague'', ''brno'']),
     (''austria'', [''austria'', ''vienna'', ''salzburg''])]"

text \<open>
  The first loop of the special case,
  \<^verbatim>\<open>
      for country, indicators in country_indicators.items():
          for indicator in indicators:
              if indicator in home_team:
                  home_countries.append(country)
              if indicator in away_team:
                  away_countries.append(country)
  \<close>
  fills the two lists independently; \<open>matched_countries\<close> is the list it builds for one
  team name.
\<close>

definition matched_countries :: "(string \<times> string list) list \<Rightarrow> string \<Rightarrow> string list" where
  "matched_countries table team =
     concat (map (\<lambda>(country, indicators).
       concat (map (\<lambda>indicator. if contains team indicator then [country] else []) indicators))
       table)"

text \<open>
  The generic scan,
  \<^verbatim>\<open>
      for country, indicators in country_indicators.items():
          for indicator in indicators:
              if indicator in team_text:
                  return country.title()
      return "Unknown"
  \<close>
\<close>

fun scan_indicators :: "string \<Rightarrow> string \<Rightarrow> string list \<Rightarrow> string option" where
  "scan_indicators team_text country [] = None"
| "scan_indicators team_text country (indicator # rest) =
     (if contains team_text indicator then Some (title country)
      else scan_indicators team_text country rest)"

fun scan_countries :: "string \<Rightarrow> (string \<times> string list) list \<Rightarrow> string" where
  "scan_countries team_text [] = ''Unknown''"
| "scan_countries team_text ((country, indicators) # rest) =
     (case scan_indicators team_text country indicators of
        Some r \<Rightarrow> r
      | None \<Rightarrow> scan_countries team_text rest)"

text \<open>
  \<^verbatim>\<open>
  def infer_country_from_teams(match_data):
      home_team = match_data.get('home_team', '').lower()
      away_team = match_data.get('away_team', '').lower()
      competition = match_data.get('competition', '').lower()
      country_indicators = {...}
      if 'international' in competition and 'friendly' in competition:
          home_countries, away_countries = [], []
          ...
          if home_countries and away_countries and home_countries[0] != away_countries[0]:
              return "International"
          if home_countries and not away_countries:
              return home_countries[0].title()
          if away_countries and not home_countries:
              return away_countries[0].title()
          if home_countries and away_countries and home_countries[0] == away_countries[0]:
              return home_countries[0].title()
      team_text = f"{home_team} {away_team}"
      ...
  \<close>
  \<open>infer_country\<close> is the body after the three fields have been read and lower-cased.
\<close>

definition infer_country :: "string \<Rightarrow> string \<Rightarrow> string \<Rightarrow> string" where
  "infer_country home_team away_team competition =
     (let generic = scan_countries (home_team @ '' '' @ away_team) country_indicators in
      if contains competition ''international'' \<and> contains competition ''friendly'' then
        (let home_countries = matched_countries country_indicators home_team;
             away_countries = matched_countries country_indicators away_team
         in if home_countries \<noteq> [] \<and> away_countries \<noteq> [] \<and> hd home_countries \<noteq> hd away_countries
              then ''International''
            else if home_countries \<noteq> [] \<and> away_countries = [] then title (hd home_countries)
            else if away_countries \<noteq> [] \<and> home_countries = [] then title (hd away_countries)
            else if home_countries \<noteq> [] \<and> away_countries \<noteq> [] \<and> hd home_countries = hd away_countries
              then title (hd home_countries)
            else generic)
      else generic)"

definition infer_country_from_teams :: "json \<Rightarrow> py_error + string" where
  "infer_country_from_teams match_data =
     thenE (get match_data ''home_team'' (JStr [])) (\<lambda>h.
     thenE (py_lower h) (\<lambda>home_team.
     thenE (get match_data ''away_team'' (JStr [])) (\<lambda>a.
     thenE (py_lower a) (\<lambda>away_team.
     thenE (get match_data ''competition'' (JStr [])) (\<lambda>c.
     thenE (py_lower c) (\<lambda>competition.
       Inr (infer_country home_team away_team competition)))))))"

text \<open>The country of a team name: the first country of the table, in table order, one of
  whose indicators occurs in the name.\<close>

definition first_country :: "string \<Rightarrow> string option" where
  "first_country team =
     map_option fst (find (\<lambda>(country, indicators). list_ex (contains team) indicators)
       country_indicators)"

section \<open>History Store\<close>

text \<open>
  The backing file of the History Store is absent, holds text that \<^verbatim>\<open>json.load\<close> rejects,
  or holds a JSON document. The two clock readings of a call (\<^verbatim>\<open>datetime.now(TZ).isoformat()\<close>
  and \<^verbatim>\<open>get_eastern_time()\<close>) are parameters.
  \<^verbatim>\<open>
  def save_match_summaries(summaries: list, output_file: str = "step2.json") -> bool:
      grouped = {str(s.get("match_id")): s for s in summaries if s.get("match_id")}
      batch = {
          "timestamp": datetime.now(TZ).isoformat(),
          "total_matches": len(grouped),
          "matches": grouped
      }
      path = os.path.join(os.path.dirname(__file__), output_file)
      try:
          data = {"history": []}
          if os.path.exists(path):
              with open(path, 'r') as f:
                  loaded_data = json.load(f)
              data = loaded_data if isinstance(loaded_data, dict) and loaded_data.get("history") \
                     else {"history": [loaded_data]}
          MAX_HISTORY_ENTRIES = 100
          if len(data["history"]) >= MAX_HISTORY_ENTRIES:
              data["history"] = data["history"][-MAX_HISTORY_ENTRIES:]
          data["history"].append(batch)
          data.update({
              "last_updated": batch["timestamp"],
              "total_entries": len(data["history"]),
              "latest_match_count": batch["total_matches"]
          })
          data["ny_timestamp"] = get_eastern_time()
          with open(path, "w") as f:
              json.dump(data, f, indent=2, ensure_ascii=False)
          return True
      except:
          return False
  \<close>
\<close>

datatype file_state = Missing | Unreadable | Content json

definition MAX_HISTORY_ENTRIES :: nat where
  "MAX_HISTORY_ENTRIES = 100"

text \<open>The dictionary comprehension \<open>grouped\<close>; it runs before the \<^verbatim>\<open>try\<close>, so a summary that
  is not a dictionary makes the call raise.\<close>

definition grouped_step :: "(string \<times> json) list \<Rightarrow> json \<Rightarrow> py_error + (string \<times> json) list" where
  "grouped_step grouped s =
     thenE (get s ''match_id'' JNone) (\<lambda>mid.
       if truthy mid then Inr (AList.update (py_str mid) s grouped) else Inr grouped)"

definition make_batch :: "string \<Rightarrow> json list \<Rightarrow> py_error + json" where
  "make_batch now summaries =
     thenE (foldE grouped_step [] summaries) (\<lambda>grouped.
       Inr (JDict [(''timestamp'', JStr now),
                   (''total_matches'', JInt (int (length grouped))),
                   (''matches'', JDict grouped)]))"

text \<open>\<^verbatim>\<open>x[-n:]\<close> for a list or a string; a dictionary cannot be sliced.\<close>

fun last_n :: "nat \<Rightarrow> json \<Rightarrow> py_error + json" where
  "last_n n (JList xs) = Inr (JList (drop (length xs - n) xs))"
| "last_n n (JStr s) = Inr (JStr (drop (length s - n) s))"
| "last_n n _ = Inl TypeError"

text \<open>\<^verbatim>\<open>x.append(v)\<close>: only a list has the method.\<close>

fun append :: "json \<Rightarrow> json \<Rightarrow> py_error + json" where
  "append (JList xs) v = Inr (JList (xs @ [v]))"
| "append _ v = Inl AttributeError"

text \<open>The body of the \<^verbatim>\<open>try\<close> block up to the document that is written; \<open>None\<close> stands for
  the file not being there.\<close>

definition updated_document :: "string \<Rightarrow> json \<Rightarrow> json option \<Rightarrow> py_error + json" where
  "updated_document ny batch loaded =
     (let data = (case loaded of
                    None \<Rightarrow> [(''history'', JList [])]
                  | Some loaded_data \<Rightarrow>
                      (case loaded_data of
                         JDict d \<Rightarrow> if truthy (dget d ''history'' JNone) then d
                                    else [(''history'', JList [loaded_data])]
                       | _ \<Rightarrow> [(''history'', JList [loaded_data])])) in
      thenE (py_len (dget data ''history'' JNone)) (\<lambda>n.
      thenE (if n \<ge> MAX_HISTORY_ENTRIES then last_n MAX_HISTORY_ENTRIES (dget data ''history'' JNone)
             else Inr (dget data ''history'' JNone)) (\<lambda>history.
      thenE (append history batch) (\<lambda>history.
      thenE (subscript batch ''timestamp'') (\<lambda>last_updated.
      thenE (py_len history) (\<lambda>total_entries.
      thenE (subscript batch ''total_matches'') (\<lambda>latest_match_count.
        Inr (JDict
          (AList.update ''ny_timestamp'' (JStr ny)
          (AList.update ''latest_match_count'' latest_match_count
          (AList.update ''total_entries'' (JInt (int total_entries))
          (AList.update ''last_updated'' last_updated
          (AList.update ''history'' history data)))))))))))))"

definition save_match_summaries ::
    "string \<Rightarrow> string \<Rightarrow> json list \<Rightarrow> file_state \<Rightarrow> py_error + (bool \<times> file_state)" where
  "save_match_summaries now ny summaries file =
     thenE (make_batch now summaries) (\<lambda>batch.
       case file of
         Unreadable \<Rightarrow> Inr (False, file)
       | Missing \<Rightarrow>
           (case updated_document ny batch None of
              Inl e \<Rightarrow> Inr (False, file)
            | Inr doc \<Rightarrow> Inr (True, Content doc))
       | Content loaded_data \<Rightarrow>
           (case updated_document ny batch (Some loaded_data) of
              Inl e \<Rightarrow> Inr (False, file)
            | Inr doc \<Rightarrow> Inr (True, Content doc)))"

text \<open>The stored history list of a file, and a driver that performs a sequence of calls,
  each given by its two clock readings and its summaries, on the same file.\<close>

definition history_of :: "file_state \<Rightarrow> json list option" where
  "history_of file =
     (case file of
        Content (JDict d) \<Rightarrow> (case map_of d ''history'' of Some (JList h) \<Rightarrow> Some h | _ \<Rightarrow> None)
      | _ \<Rightarrow> None)"

fun save_all :: "file_state \<Rightarrow> (string \<times> string \<times> json list) list \<Rightarrow> file_state" where
  "save_all file [] = file"
| "save_all file ((now, ny, summaries) # calls) =
     (case save_match_summaries now ny summaries file of
        Inl e \<Rightarrow> file
      | Inr (ok, file') \<Rightarrow> save_all file' calls)"

text \<open>The batch a call appends when none of its summaries has a match id.\<close>

definition empty_batch :: "string \<Rightarrow> json" where
  "empty_batch now = JDict [(''timestamp'', JStr now), (''total_matches'', JInt 0), (''matches'', JDict [])]"

section \<open>Status Classifier\<close>

text \<open>The two in-play subsets of the source: the list \<^verbatim>\<open>in_play_status_ids = [2, 3, 4, 5, 7]\<close>
  of \<^verbatim>\<open>create_unified_status_summary\<close> (\<^verbatim>\<open>step1_json.py\<close>) and the module constant
  \<^verbatim>\<open>STATUS_FILTER = {2, 3, 4, 5, 6, 7}\<close> of \<^verbatim>\<open>step2.7.py\<close>, which is also the literal list in
  the footer loop of \<^verbatim>\<open>step1_main\<close>.\<close>

definition in_play_status_ids :: "int list" where
  "in_play_status_ids = [2, 3, 4, 5, 7]"

definition STATUS_FILTER :: "int set" where
  "STATUS_FILTER = {2, 3, 4, 5, 6, 7}"

text \<open>\<^verbatim>\<open>v in [k1, k2, ...]\<close> for a list of integers.\<close>

definition in_ints :: "json \<Rightarrow> int list \<Rightarrow> bool" where
  "in_ints v ks = list_ex (\<lambda>k. py_eq v (JInt k)) ks"

text \<open>
  The footer loop of \<^verbatim>\<open>step1_main\<close>:
  \<^verbatim>\<open>
      in_play_count = 0
      matches = live_data.get("results", [])
      for match in matches:
          status_id = extract_status_id(match)
          if status_id in [2, 3, 4, 5, 6, 7]:  # In-Play status IDs
              in_play_count += 1
  \<close>
\<close>

definition step1_main_in_play_count :: "json list \<Rightarrow> py_error + nat" where
  "step1_main_in_play_count matches =
     foldE (\<lambda>in_play_count match.
        thenE (extract_status_id match) (\<lambda>status_id.
          if in_ints status_id [2, 3, 4, 5, 6, 7] then Inr (in_play_count + 1)
          else Inr in_play_count)) 0 matches"

text \<open>\<^verbatim>\<open>status_desc_map\<close> of \<^verbatim>\<open>create_unified_status_summary\<close>, with the default of its
  \<^verbatim>\<open>get\<close>.\<close>

definition status_desc_map :: "(int \<times> string) list" where
  "status_desc_map =
    [(0, ''Abnormal (suggest hiding)''), (1, ''Not started''), (2, ''First half''),
     (3, ''Half-time''), (4, ''Second half''), (5, ''Overtime''),
     (6, ''Overtime (deprecated)''), (7, ''Penalty Shoot-out''), (8, ''End''), (9, ''Delay''),
     (10, ''Interrupt''), (11, ''Cut in half''), (12, ''Cancel''), (13, ''To be determined'')]"

definition status_desc :: "json \<Rightarrow> string" where
  "status_desc status_id =
     (case as_int status_id of
        Some i \<Rightarrow> (case map_of status_desc_map i of Some d \<Rightarrow> d | None \<Rightarrow> ''Unknown Status'')
      | None \<Rightarrow> ''Unknown Status'')"

text \<open>The dictionary \<^verbatim>\<open>status_counts\<close>: status id, description and count, in insertion
  order; a key is found by \<^verbatim>\<open>==\<close>.\<close>

type_synonym status_counts = "(json \<times> string \<times> nat) list"

fun count_status :: "status_counts \<Rightarrow> json \<Rightarrow> string \<Rightarrow> status_counts" where
  "count_status [] status_id d = [(status_id, d, 1)]"
| "count_status ((k, d', c) # rest) status_id d =
     (if py_eq k status_id then (k, d', c + 1) # rest
      else (k, d', c) # count_status rest status_id d)"

text \<open>\<^verbatim>\<open>status_counts.get(sid, {}).get("count", 0)\<close>\<close>

fun get_count :: "status_counts \<Rightarrow> json \<Rightarrow> nat" where
  "get_count [] sid = 0"
| "get_count ((k, d, c) # rest) sid = (if py_eq k sid then c else get_count rest sid)"

text \<open>
  \<^verbatim>\<open>
      for match in matches:
          status_id = extract_status_id(match)
          if status_id is not None:
              matches_with_status += 1
              status_desc = status_desc_map.get(status_id, f"Unknown Status")
              if status_id not in status_counts:
                  status_counts[status_id] = {"description": status_desc, "count": 0}
              status_counts[status_id]["count"] += 1
  \<close>
  A status id that is a list or a dictionary cannot be hashed.
\<close>

definition count_match :: "status_counts \<times> nat \<Rightarrow> json \<Rightarrow> py_error + status_counts \<times> nat" where
  "count_match acc match =
     (case acc of (status_counts, matches_with_status) \<Rightarrow>
        thenE (extract_status_id match) (\<lambda>status_id.
          if status_id \<noteq> JNone then
            if hashable status_id
              then Inr (count_status status_counts status_id (status_desc status_id),
                        matches_with_status + 1)
            else Inl TypeError
          else Inr (status_counts, matches_with_status)))"

text \<open>\<^verbatim>\<open>"results" not in live_matches_data\<close>: membership of a key in a dictionary, of an
  item in a list, of a substring in a string.\<close>

fun has_item :: "json \<Rightarrow> string \<Rightarrow> py_error + bool" where
  "has_item (JDict d) k = Inr (map_of d k \<noteq> None)"
| "has_item (JList xs) k = Inr (list_ex (\<lambda>x. py_eq x (JStr k)) xs)"
| "has_item (JStr s) k = Inr (contains s k)"
| "has_item _ k = Inl TypeError"

text \<open>
  The second loop and the result of \<^verbatim>\<open>create_unified_status_summary\<close>:
  \<^verbatim>\<open>
      for status_id in sorted(status_counts.keys()):
          data = status_counts[status_id]
          description = data["description"]
          count = data["count"]
          formatted_line = f"{description} (ID: {status_id}): {count}"
          formatted_summary.append(formatted_line)
          status_counts_with_ids[f"status_{status_id}"] = {
              "id": status_id, "description": description,
              "count": count, "formatted": formatted_line
          }
      in_play_status_ids = [2, 3, 4, 5, 7]
      in_play_count = sum(status_counts.get(sid, {}).get("count", 0) for sid in in_play_status_ids)
      formatted_summary.append(f"IN-PLAY MATCHES: {in_play_count}")
  \<close>
\<close>

definition formatted_line :: "status_counts \<Rightarrow> json \<Rightarrow> string" where
  "formatted_line status_counts status_id =
     (case find (\<lambda>(k, d, c). py_eq k status_id) status_counts of
        Some (k, d, c) \<Rightarrow> d @ '' (ID: '' @ py_str status_id @ ''): '' @ nat_digits c
      | None \<Rightarrow> [])"

definition breakdown_entry :: "status_counts \<Rightarrow> json \<Rightarrow> json" where
  "breakdown_entry status_counts status_id =
     (case find (\<lambda>(k, d, c). py_eq k status_id) status_counts of
        Some (k, d, c) \<Rightarrow>
          JDict [(''id'', status_id), (''description'', JStr d), (''count'', JInt (int c)),
                 (''formatted'', JStr (formatted_line status_counts status_id))]
      | None \<Rightarrow> JNone)"

definition create_unified_status_summary :: "json \<Rightarrow> py_error + json" where
  "create_unified_status_summary live_matches_data =
     thenE (if \<not> truthy live_matches_data then Inr True
            else thenE (has_item live_matches_data ''results'') (\<lambda>b. Inr (\<not> b))) (\<lambda>no_results.
       if no_results then
         Inr (JDict [(''total_matches_fetched'', JInt 0), (''status_breakdown'', JDict []),
                     (''formatted_summary'', JList []), (''status_counts'', JDict []),
                     (''in_play_matches'', JInt 0)])
       else
         thenE (subscript live_matches_data ''results'') (\<lambda>matches.
         thenE (py_len matches) (\<lambda>total_matches.
         thenE (iterate matches) (\<lambda>ms.
         thenE (foldE count_match ([], 0) ms) (\<lambda>(status_counts, matches_with_status).
         thenE (sort_lt py_lt (map fst status_counts)) (\<lambda>sorted_ids.
           let formatted_summary = map (formatted_line status_counts) sorted_ids;
               status_counts_with_ids =
                 foldl (\<lambda>acc status_id.
                     AList.update (''status_'' @ py_str status_id)
                       (breakdown_entry status_counts status_id) acc) [] sorted_ids;
               in_play_count = sum_list (map (\<lambda>sid. get_count status_counts (JInt sid)) in_play_status_ids);
               formatted_summary = formatted_summary @ [''IN-PLAY MATCHES: '' @ nat_digits in_play_count]
           in Inr (JDict
                [(''total_matches_fetched'', JInt (int total_matches)),
                 (''matches_with_status'', JInt (int matches_with_status)),
                 (''matches_without_status'', JInt (int total_matches - int matches_with_status)),
                 (''in_play_matches'', JInt (int in_play_count)),
                 (''status_breakdown'', JDict status_counts_with_ids),
                 (''formatted_summary'', JList (map JStr formatted_summary)),
                 (''status_counts'',
                    JDict (foldl (\<lambda>acc (k, d, c). AList.update d (JInt (int c)) acc) [] status_counts))])))))))"

section \<open>Environment Interpreter\<close>

text \<open>
  The interpreted environment holds floats next to JSON values; \<open>D\<close> is a dictionary whose
  values may hold floats.
\<close>

datatype pyval = J json | F float64 | D "(string \<times> pyval) list"

text \<open>White space (\<^verbatim>\<open>\s\<close> and \<^verbatim>\<open>str.strip\<close>).\<close>

definition is_space :: "char \<Rightarrow> bool" where
  "is_space c =
     ((CHR 0x09 \<le> c \<and> c \<le> CHR 0x0D) \<or> (CHR 0x1C \<le> c \<and> c \<le> CHR 0x20) \<or>
      c = CHR 0x85 \<or> c = CHR 0xA0)"

definition strip :: "string \<Rightarrow> string" where
  "strip s = rev (dropWhile is_space (rev (dropWhile is_space s)))"

text \<open>\<^verbatim>\<open>s.isdigit()\<close> and \<^verbatim>\<open>s.replace(c, "")\<close> for a one-character \<open>c\<close>. The superscript digits
  \<open>U+00B2\<close>, \<open>U+00B3\<close> and \<open>U+00B9\<close> pass \<^verbatim>\<open>isdigit\<close>, but \<^verbatim>\<open>int\<close> and \<^verbatim>\<open>float\<close> do not accept
  them.\<close>

definition digit_like :: "char \<Rightarrow> bool" where
  "digit_like c = (is_digit c \<or> c = CHR 0xB2 \<or> c = CHR 0xB3 \<or> c = CHR 0xB9)"

definition isdigit :: "string \<Rightarrow> bool" where
  "isdigit s = (s \<noteq> [] \<and> list_all digit_like s)"

definition remove_char :: "char \<Rightarrow> string \<Rightarrow> string" where
  "remove_char c s = filter (\<lambda>x. x \<noteq> c) s"

text \<open>\<^verbatim>\<open>float(s)\<close> for a text of digits, dots, minus signs and superscript digits (the only
  texts that reach the two calls of the source, one behind the pattern \<^verbatim>\<open>[\d.-]+\<close> and one
  behind \<^verbatim>\<open>isdigit\<close>): an optional sign, then ASCII digits with at most one dot and at least
  one digit. The value is the binary64 number nearest to the decimal numeral. Any other
  such text raises \<^verbatim>\<open>ValueError\<close>.\<close>

definition decimal_value :: "string \<Rightarrow> string \<Rightarrow> rat" where
  "decimal_value ip fp = of_int (int_of_digits ip) + of_int (int_of_digits fp) / 10 ^ length fp"

definition unsigned_float :: "string \<Rightarrow> py_error + float64" where
  "unsigned_float s =
     (let ip = takeWhile is_digit s; r = dropWhile is_digit s in
      if r = [] then (if ip = [] then Inl ValueError else Inr (round64 (decimal_value ip [])))
      else if hd r = CHR ''.'' \<and> list_all is_digit (tl r) \<and> (ip \<noteq> [] \<or> tl r \<noteq> [])
        then Inr (round64 (decimal_value ip (tl r)))
      else Inl ValueError)"

definition parse_float :: "string \<Rightarrow> py_error + float64" where
  "parse_float s =
     (case s of
        c # cs \<Rightarrow> if c = CHR ''-'' then thenE (unsigned_float cs) (\<lambda>v. Inr (fneg v)) else unsigned_float s
      | [] \<Rightarrow> Inl ValueError)"

text \<open>\<^verbatim>\<open>float(x)\<close> and \<^verbatim>\<open>int(x)\<close> for a value \<open>x\<close> whose text has passed the digit tests of
  \<^verbatim>\<open>process_environment_like_step2\<close>. An integer beyond the range of the floats raises
  \<^verbatim>\<open>OverflowError\<close>.\<close>

definition float_of_rat :: "rat \<Rightarrow> py_error + float64" where
  "float_of_rat q =
     (if round64 q = PosInf \<or> round64 q = NegInf then Inl OverflowError else Inr (round64 q))"

fun py_float :: "json \<Rightarrow> py_error + float64" where
  "py_float (JStr s) = parse_float s"
| "py_float (JInt i) = float_of_rat (of_int i)"
| "py_float (JBool b) = Inr (Finite (if b then 1 else 0))"
| "py_float _ = Inl TypeError"

fun py_int :: "json \<Rightarrow> py_error + int" where
  "py_int (JStr s) = int_text s"
| "py_int (JInt i) = Inr i"
| "py_int (JBool b) = Inr (if b then 1 else 0)"
| "py_int _ = Inl TypeError"

text \<open>The weather codes and the wind thresholds.\<close>

definition weather_desc :: "(int \<times> string) list" where
  "weather_desc =
    [(1, ''Sunny''), (2, ''Partly Cloudy''), (3, ''Cloudy''), (4, ''Overcast''), (5, ''Foggy''),
     (6, ''Light Rain''), (7, ''Rain''), (8, ''Heavy Rain''), (9, ''Snow''), (10, ''Thunder'')]"

definition descs :: "(rat \<times> string) list" where
  "descs =
    [(1, ''Calm''), (4, ''Light Air''), (8, ''Light Breeze''), (13, ''Gentle Breeze''),
     (19, ''Moderate Breeze''), (25, ''Fresh Breeze''), (32, ''Strong Breeze''),
     (39, ''Near Gale''), (47, ''Gale''), (55, ''Strong Gale''), (64, ''Storm''),
     (73, ''Violent Storm'')]"

text \<open>\<^verbatim>\<open>next((label for lim, label in descs if mph < lim), "Hurricane")\<close>\<close>

definition wind_category :: "float64 \<Rightarrow> string" where
  "wind_category mph =
     (case find (\<lambda>(threshold, label). flt mph threshold) descs of
        Some (threshold, label) \<Rightarrow> label
      | None \<Rightarrow> ''Hurricane'')"

text \<open>\<^verbatim>\<open>int(wc) if isinstance(wc, str) and wc.isdigit() else wc\<close>\<close>

definition weather_code :: "json \<Rightarrow> py_error + json" where
  "weather_code wc =
     (case wc of
        JStr s \<Rightarrow> if isdigit s then thenE (int_text s) (\<lambda>i. Inr (JInt i)) else Inr wc
      | _ \<Rightarrow> Inr wc)"

text \<open>\<^verbatim>\<open>desc.get(code, default)\<close>; a list or a dictionary cannot be looked up.\<close>

definition weather_lookup :: "json \<Rightarrow> string \<Rightarrow> py_error + string" where
  "weather_lookup code dflt =
     (if \<not> hashable code then Inl TypeError
      else Inr (case as_int code of
                  Some i \<Rightarrow> (case map_of weather_desc i of Some d \<Rightarrow> d | None \<Rightarrow> dflt)
                | None \<Rightarrow> dflt))"

text \<open>
  One round of the loop of \<^verbatim>\<open>extract_environment\<close>:
  \<^verbatim>\<open>
      for key in ("temperature", "wind", "pressure", "humidity"):
          val = env.get(key)
          parsed[key] = val
          m = re.match(r"([\d.-]+)\s*([^\d]*)", str(val))
          num, unit = (float(m.group(1)), m.group(2).strip()) if m else (None, None)
          parsed[f"{key}_value"] = num
          parsed[f"{key}_unit"] = unit
  \<close>
  The pattern matches when \<^verbatim>\<open>str(val)\<close> starts with a digit, a dot or a minus sign; the
  first group is the longest such run, the second the run of non-digits after optional
  white space.
\<close>

definition num_char :: "char \<Rightarrow> bool" where
  "num_char c = (is_digit c \<or> c = CHR ''.'' \<or> c = CHR ''-'')"

definition parse_quantity :: "json \<Rightarrow> py_error + pyval \<times> pyval" where
  "parse_quantity val =
     (let s = py_str val; g1 = takeWhile num_char s in
      if g1 = [] then Inr (J JNone, J JNone)
      else thenE (parse_float g1) (\<lambda>num.
        Inr (F num, J (JStr (strip (takeWhile (\<lambda>c. \<not> is_digit c)
                                   (dropWhile is_space (dropWhile num_char s))))))))"

definition parse_key :: "(string \<times> json) list \<Rightarrow> (string \<times> pyval) list \<Rightarrow> string \<Rightarrow>
    py_error + (string \<times> pyval) list" where
  "parse_key env parsed key =
     (let val = dget env key JNone in
      thenE (parse_quantity val) (\<lambda>(num, unit).
        Inr (AList.update (key @ ''_unit'') unit
            (AList.update (key @ ''_value'') num
            (AList.update key (J val) parsed)))))"

text \<open>
  \<^verbatim>\<open>
  def extract_environment(match: dict) -> dict:
      env = match.get("environment", {}) or {}
      parsed = {"raw": env}
      wc = env.get("weather")
      parsed["weather"] = int(wc) if isinstance(wc, str) and wc.isdigit() else wc
      desc = {...}
      parsed["weather_description"] = desc.get(parsed["weather"], "Unknown")
      for key in ("temperature", "wind", "pressure", "humidity"):
          ...
      wv = parsed.get("wind_value") or 0
      mph = wv * 2.237 if "m/s" in str(env.get("wind", "")).lower() else wv
      descs = [...]
      parsed["wind_description"] = next((label for lim, label in descs if mph < lim), "Hurricane")
      return parsed
  \<close>
\<close>

definition extract_environment :: "(string \<times> json) list \<Rightarrow> py_error + (string \<times> pyval) list" where
  "extract_environment match =
     (let env = py_or (dget match ''environment'' (JDict [])) (JDict []) in
      thenE (get env ''weather'' JNone) (\<lambda>wc.
      thenE (weather_code wc) (\<lambda>weather.
      thenE (weather_lookup weather ''Unknown'') (\<lambda>description.
      thenE (foldE (parse_key (items_of env))
               [(''raw'', J env), (''weather'', J weather),
                (''weather_description'', J (JStr description))]
               [''temperature'', ''wind'', ''pressure'', ''humidity'']) (\<lambda>parsed.
        let wv = (case map_of parsed ''wind_value'' of
                    Some (F v) \<Rightarrow> if fzero v then Finite 0 else v
                  | _ \<Rightarrow> Finite 0);
            mph = (if contains (lower (py_str (dget (items_of env) ''wind'' (JStr [])))) ''m/s''
                   then fmul wv (round64 (2237 / 1000)) else wv)
        in Inr (AList.update ''wind_description'' (J (JStr (wind_category mph))) parsed))))))"

text \<open>
  \<^verbatim>\<open>
  def process_environment_like_step2(env):
      parsed = {"raw": env}
      wc = env.get("weather")
      parsed["weather"] = int(wc) if isinstance(wc, str) and wc.isdigit() else wc
      desc = {...}
      parsed["weather_description"] = desc.get(parsed["weather"], f"Unknown ({parsed['weather']})")
      temp = env.get("temperature")
      if temp and str(temp).replace("-", "").isdigit():
          temp_c = int(temp)
          temp_f = round((temp_c * 9/5) + 32)
          parsed["temperature"] = f"{temp_c}\<degree>C ({temp_f}\<degree>F)"
      else:
          parsed["temperature"] = str(temp) if temp else "Unknown"
      wind = env.get("wind")
      if wind and str(wind).replace(".", "").isdigit():
          wind_mph = float(wind)
          if wind_mph < 1:
              parsed["wind_description"] = "Calm"
          elif ... else:
              parsed["wind_description"] = "Hurricane"
          parsed["wind"] = f"{wind_mph} mph ({parsed['wind_description']})"
      else:
          parsed["wind"] = str(wind) if wind else "Unknown"
      parsed["pressure"] = f"{env.get('pressure', 'Unknown')} hPa"
      parsed["humidity"] = f"{env.get('humidity', 'Unknown')}%"
      return parsed
  \<close>
  The \<^verbatim>\<open>if\<close> chain on \<^verbatim>\<open>wind_mph\<close> tests the thresholds of \<open>descs\<close> in their order.
  \<^verbatim>\<open>temp_c * 9/5\<close> is the quotient of two integers, rounded to a float (or
  \<^verbatim>\<open>OverflowError\<close>); adding 32 rounds again, and \<^verbatim>\<open>round\<close> gives the nearest integer, the
  even one of two nearest.

  In the file the two temperature units are preceded by the bytes \<open>C3 82 C2 B0\<close>, the
  UTF-8 encoding of the two characters \<open>U+00C2\<close> and \<open>U+00B0\<close>; the text \<open>degree\<close> holds these
  two characters.
\<close>

definition degree :: string where
  "degree = [CHR 0xC2, CHR 0xB0]"

definition fahrenheit :: "int \<Rightarrow> py_error + int" where
  "fahrenheit temp_c =
     thenE (float_of_rat (of_int (temp_c * 9) / 5)) (\<lambda>x.
       Inr (round_half_even (fvalue (fadd x (Finite 32)))))"

definition process_environment_like_step2 :: "json \<Rightarrow> py_error + (string \<times> pyval) list" where
  "process_environment_like_step2 env =
     thenE (get env ''weather'' JNone) (\<lambda>wc.
     thenE (weather_code wc) (\<lambda>weather.
     thenE (weather_lookup weather (''Unknown ('' @ py_str weather @ '')'')) (\<lambda>description.
     thenE (get env ''temperature'' JNone) (\<lambda>temp.
     thenE (if truthy temp \<and> isdigit (remove_char CHR ''-'' (py_str temp))
            then thenE (py_int temp) (\<lambda>temp_c.
                 thenE (fahrenheit temp_c) (\<lambda>temp_f.
                   Inr (int_str temp_c @ degree @ ''C ('' @ int_str temp_f @ degree @ ''F)'')))
            else Inr (if truthy temp then py_str temp else ''Unknown'')) (\<lambda>temperature.
     thenE (get env ''wind'' JNone) (\<lambda>wind.
     thenE (if truthy wind \<and> isdigit (remove_char CHR ''.'' (py_str wind))
            then thenE (py_float wind) (\<lambda>wind_mph.
                   Inr [(''wind_description'', J (JStr (wind_category wind_mph))),
                        (''wind'', J (JStr (float_repr wind_mph @ '' mph ('' @
                                             wind_category wind_mph @ '')'')))])
            else Inr [(''wind'', J (JStr (if truthy wind then py_str wind else ''Unknown'')))]) (\<lambda>wind_part.
     thenE (get env ''pressure'' (JStr ''Unknown'')) (\<lambda>pressure.
     thenE (get env ''humidity'' (JStr ''Unknown'')) (\<lambda>humidity.
       Inr ([(''raw'', J env), (''weather'', J weather),
             (''weather_description'', J (JStr description)),
             (''temperature'', J (JStr temperature))]
            @ wind_part
            @ [(''pressure'', J (JStr (py_str pressure @ '' hPa''))),
               (''humidity'', J (JStr (py_str humidity @ ''%'')))]))))))))))"
section \<open>Match Summarizer and Entity Resolver/Merger\<close>

text \<open>
  \<^verbatim>\<open>
  def extract_events(match: dict) -> list:
      return [
          {"type": ev.get("type"), "time": ev.get("time"), "team": ev.get("team"),
           "player": ev.get("player"), "detail": ev.get("detail")}
          for ev in match.get("events", [])
          if ev.get("type") in {"goal", "yellowcard", "redcard", "penalty", "substitution"}
      ]
  \<close>
  Membership in a set hashes the event type.
\<close>

definition event_step :: "json list \<Rightarrow> json \<Rightarrow> py_error + json list" where
  "event_step acc ev =
     thenE (get ev ''type'' JNone) (\<lambda>ty.
       if \<not> hashable ty then Inl TypeError
       else if list_ex (\<lambda>k. py_eq ty (JStr k))
                 [''goal'', ''yellowcard'', ''redcard'', ''penalty'', ''substitution'']
         then Inr (acc @ [JDict [(''type'', ty), (''time'', field ev ''time'' JNone),
                                 (''team'', field ev ''team'' JNone),
                                 (''player'', field ev ''player'' JNone),
                                 (''detail'', field ev ''detail'' JNone)]])
       else Inr acc)"

definition extract_events :: "(string \<times> json) list \<Rightarrow> py_error + json list" where
  "extract_events match =
     thenE (iterate (dget match ''events'' (JList []))) (\<lambda>evs. foldE event_step [] evs)"

text \<open>
  The scores of \<^verbatim>\<open>extract_summary_fields\<close>:
  \<^verbatim>\<open>
      home_live = home_ht = away_live = away_ht = 0
      sd = match.get("score", [])
      if isinstance(sd, list) and len(sd) > 3:
          hs, as_ = sd[2], sd[3]
          if isinstance(hs, list) and len(hs) > 1:
              home_live, home_ht = hs[0], hs[1]
          if isinstance(as_, list) and len(as_) > 1:
              away_live, away_ht = as_[0], as_[1]
      home_scores = match.get("home_scores", [])
      away_scores = match.get("away_scores", [])
      if home_scores and home_live == 0:
          home_live = home_scores[0] if isinstance(home_scores, list) and home_scores else 0
      if away_scores and away_live == 0:
          away_live = away_scores[0] if isinstance(away_scores, list) and away_scores else 0
  \<close>
  \<open>side_score\<close> computes the live and half-time score of one side from its item \<open>i\<close> of the
  score array and its flat list of scores.
\<close>

definition side_score :: "json \<Rightarrow> nat \<Rightarrow> json \<Rightarrow> json \<times> json" where
  "side_score sd i scores =
     (let detail = (if is_list sd \<and> length (items sd) > 3 then items sd ! i else JNone);
          (live, ht) = (if is_list detail \<and> length (items detail) > 1
                        then (items detail ! 0, items detail ! 1) else (JInt 0, JInt 0));
          live = (if truthy scores \<and> py_eq live (JInt 0)
                  then (if is_list scores \<and> truthy scores then items scores ! 0 else JInt 0)
                  else live)
      in (live, ht))"

text \<open>
  \<^verbatim>\<open>
      return {
          "match_id": match.get("match_id") or match.get("id"),
          "status": {
              "id": match.get("status_id"),
              "description": match.get("status", ""),
              "match_time": match.get("match_time", 0),
          },
          "teams": {
              "home": {
                  "name": match.get("home_team", "Unknown"),
                  "score": {"current": home_live, "halftime": home_ht, "detailed": home_scores},
                  "position": match.get("home_position"),
                  "country": match.get("home_country"),
                  "logo_url": match.get("home_logo"),
              },
              "away": { ... },
          },
          "competition": {
              "name": match.get("competition", "Unknown"),
              "id": match.get("competition_id"),
              "country": match.get("country"),
              "logo_url": match.get("competition_logo"),
          },
          "round": match.get("round", {}),
          "venue": match.get("venue_id"),
          "referee": match.get("referee_id"),
          "neutral": match.get("neutral") == 1,
          "coverage": match.get("coverage", {}),
          "start_time": match.get("scheduled"),
          "odds": extract_odds(match),
          "environment": extract_environment(match),
          "events": extract_events(match),
          "fetched_at": get_eastern_time(),
      }
  \<close>
  The reading of the clock is the parameter \<open>fetched_at\<close>.
\<close>

definition team_block :: "(string \<times> json) list \<Rightarrow> string \<Rightarrow> nat \<Rightarrow> json" where
  "team_block match side i =
     (let scores = dget match (side @ ''_scores'') (JList []);
          (live, ht) = side_score (dget match ''score'' (JList [])) i scores
      in JDict [(''name'', dget match (side @ ''_team'') (JStr ''Unknown'')),
                (''score'', JDict [(''current'', live), (''halftime'', ht), (''detailed'', scores)]),
                (''position'', dget match (side @ ''_position'') JNone),
                (''country'', dget match (side @ ''_country'') JNone),
                (''logo_url'', dget match (side @ ''_logo'') JNone)])"

definition extract_summary_fields ::
    "string \<Rightarrow> (string \<times> json) list \<Rightarrow> py_error + (string \<times> pyval) list" where
  "extract_summary_fields fetched_at match =
     thenE (extract_odds match) (\<lambda>odds.
     thenE (extract_environment match) (\<lambda>environment.
     thenE (extract_events match) (\<lambda>events.
       Inr [(''match_id'', J (py_or (dget match ''match_id'' JNone) (dget match ''id'' JNone))),
            (''status'', J (JDict [(''id'', dget match ''status_id'' JNone),
                                   (''description'', dget match ''status'' (JStr [])),
                                   (''match_time'', dget match ''match_time'' (JInt 0))])),
            (''teams'', J (JDict [(''home'', team_block match ''home'' 2),
                                  (''away'', team_block match ''away'' 3)])),
            (''competition'', J (JDict [(''name'', dget match ''competition'' (JStr ''Unknown'')),
                                        (''id'', dget match ''competition_id'' JNone),
                                        (''country'', dget match ''country'' JNone),
                                        (''logo_url'', dget match ''competition_logo'' JNone)])),
            (''round'', J (dget match ''round'' (JDict []))),
            (''venue'', J (dget match ''venue_id'' JNone)),
            (''referee'', J (dget match ''referee_id'' JNone)),
            (''neutral'', J (JBool (py_eq (dget match ''neutral'' JNone) (JInt 1)))),
            (''coverage'', J (dget match ''coverage'' (JDict []))),
            (''start_time'', J (dget match ''scheduled'' JNone)),
            (''odds'', J (JDict odds)),
            (''environment'', D environment),
            (''events'', J (JList events)),
            (''fetched_at'', J (JStr fetched_at))])))"

text \<open>
  The side tables of \<^verbatim>\<open>merge_and_summarize\<close>. The country table is a dictionary keyed by
  the ids of the payload, which need not be strings:
  \<^verbatim>\<open>
      cw = payload.get("countries", {})
      cl = cw.get("results") or cw.get("result") or []
      countries = {c.get("id"): c.get("name") for c in cl if isinstance(c, dict)}
  \<close>
\<close>

definition country_step :: "(json \<times> json) list \<Rightarrow> json \<Rightarrow> py_error + (json \<times> json) list" where
  "country_step countries c =
     (if is_dict c then
        (let k = field c ''id'' JNone in
         if \<not> hashable k then Inl TypeError
         else Inr (if list_ex (\<lambda>(k', v). py_eq k' k) countries
                   then map (\<lambda>(k', v). if py_eq k' k then (k', field c ''name'' JNone) else (k', v)) countries
                   else countries @ [(k, field c ''name'' JNone)]))
      else Inr countries)"

text \<open>\<^verbatim>\<open>countries.get(k)\<close>\<close>

definition country_name :: "(json \<times> json) list \<Rightarrow> json \<Rightarrow> py_error + json" where
  "country_name countries k =
     (if \<not> hashable k then Inl TypeError
      else Inr (case find (\<lambda>(k', v). py_eq k' k) countries of Some (k', v) \<Rightarrow> v | None \<Rightarrow> JNone))"

text \<open>
  \<^verbatim>\<open>
      odds_wrap = om.get(mid, {})
      odds_struct = {mt: od for mk in odds_wrap.get("results", {}).values()
                     for mt, od in mk.items() if isinstance(mk, dict)}
  \<close>
  \<^verbatim>\<open>mk.items()\<close> is evaluated before the test on \<open>mk\<close>, so a value that is not a dictionary
  raises.
\<close>

fun py_items :: "json \<Rightarrow> py_error + (string \<times> json) list" where
  "py_items (JDict kvs) = Inr kvs"
| "py_items _ = Inl AttributeError"

text \<open>\<^verbatim>\<open>om.get(mid, default)\<close> with a key that need not be a string: the keys of a decoded
  JSON object are strings, so any other key is not found; a list or a dictionary cannot be
  hashed.\<close>

definition lookup :: "json \<Rightarrow> json \<Rightarrow> json \<Rightarrow> py_error + json" where
  "lookup om k dflt =
     (if \<not> is_dict om then Inl AttributeError
      else if \<not> hashable k then Inl TypeError
      else Inr (case k of JStr s \<Rightarrow> dget (items_of om) s dflt | _ \<Rightarrow> dflt))"

text \<open>\<^verbatim>\<open>**x\<close> in a dictionary display: \<open>x\<close> must be a mapping.\<close>

fun unpack :: "json \<Rightarrow> py_error + (string \<times> json) list" where
  "unpack (JDict kvs) = Inr kvs"
| "unpack _ = Inl TypeError"

definition odds_struct_step :: "(string \<times> json) list \<Rightarrow> json \<Rightarrow> py_error + (string \<times> json) list" where
  "odds_struct_step acc mk =
     thenE (py_items mk) (\<lambda>kvs. Inr (foldl (\<lambda>a (mt, od). AList.update mt od a) acc kvs))"

text \<open>
  \<^verbatim>\<open>
  def merge_and_summarize(live: dict, payload: dict) -> dict:
      mid = live.get("id") or live.get("match_id")
      dm, om, tm, cm = (
          payload.get("match_details", {}),
          payload.get("match_odds", {}),
          payload.get("team_info", {}),
          payload.get("competition_info", {})
      )
      ...
      detail = first_result(dm, mid)
      ...
      home = first_result(tm, live.get("home_team_id") or detail.get("home_team_id"))
      away = first_result(tm, live.get("away_team_id") or detail.get("away_team_id"))
      comp = first_result(cm, live.get("competition_id") or detail.get("competition_id"))

      merged = {**live, **detail,
                "odds": odds_struct,
                "environment": detail.get("environment", live.get("environment", {})),
                "events": detail.get("events", live.get("events", [])),
                "home_team": home.get("name") or live.get("home_name"),
                "home_logo": home.get("logo"),
                "home_country": home.get("country") or countries.get(home.get("country_id")),
                "away_team": away.get("name") or live.get("away_name"),
                "away_logo": away.get("logo"),
                "away_country": away.get("country") or countries.get(away.get("country_id")),
                "competition": comp.get("name") or live.get("competition_name"),
                "competition_logo": comp.get("logo"),
                "country": comp.get("country") or countries.get(comp.get("country_id")),
                "odds_raw": odds_wrap
      }
      return extract_summary_fields(merged)
  \<close>
  \<open>id_of\<close> is \<^verbatim>\<open>live.get(k) or detail.get(k)\<close>, \<open>or_country\<close> is
  \<^verbatim>\<open>x.get("country") or countries.get(x.get("country_id"))\<close>; in both the right operand is
  evaluated only when the left one is false.
\<close>

definition id_of :: "(string \<times> json) list \<Rightarrow> json \<Rightarrow> string \<Rightarrow> py_error + json" where
  "id_of live detail k =
     (if truthy (dget live k JNone) then Inr (dget live k JNone) else get detail k JNone)"

definition or_country :: "(json \<times> json) list \<Rightarrow> json \<Rightarrow> py_error + json" where
  "or_country countries x =
     thenE (get x ''country'' JNone) (\<lambda>c.
       if truthy c then Inr c
       else thenE (get x ''country_id'' JNone) (country_name countries))"

definition merge_and_summarize ::
    "string \<Rightarrow> (string \<times> json) list \<Rightarrow> (string \<times> json) list \<Rightarrow> py_error + (string \<times> pyval) list" where
  "merge_and_summarize fetched_at live payload =
     (let mid = py_or (dget live ''id'' JNone) (dget live ''match_id'' JNone);
          dm = dget payload ''match_details'' (JDict []);
          om = dget payload ''match_odds'' (JDict []);
          tm = dget payload ''team_info'' (JDict []);
          cm = dget payload ''competition_info'' (JDict []);
          cw = dget payload ''countries'' (JDict [])
      in
      thenE (get cw ''results'' JNone) (\<lambda>r1.
      thenE (get cw ''result'' JNone) (\<lambda>r2.
      thenE (iterate (py_or (py_or r1 r2) (JList []))) (\<lambda>cl.
      thenE (foldE country_step [] cl) (\<lambda>countries.
      thenE (first_result dm mid) (\<lambda>detail.
      thenE (lookup om mid (JDict [])) (\<lambda>odds_wrap.
      thenE (get odds_wrap ''results'' (JDict [])) (\<lambda>odds_results.
      thenE (py_items odds_results) (\<lambda>companies.
      thenE (foldE odds_struct_step [] (map snd companies)) (\<lambda>odds_struct.
      thenE (thenE (id_of live detail ''home_team_id'') (first_result tm)) (\<lambda>home.
      thenE (thenE (id_of live detail ''away_team_id'') (first_result tm)) (\<lambda>away.
      thenE (thenE (id_of live detail ''competition_id'') (first_result cm)) (\<lambda>comp'.
      thenE (unpack detail) (\<lambda>detail_items.
      thenE (get detail ''environment'' (dget live ''environment'' (JDict []))) (\<lambda>environment.
      thenE (get detail ''events'' (dget live ''events'' (JList []))) (\<lambda>events.
      thenE (get home ''name'' JNone) (\<lambda>home_name.
      thenE (get home ''logo'' JNone) (\<lambda>home_logo.
      thenE (or_country countries home) (\<lambda>home_country.
      thenE (get away ''name'' JNone) (\<lambda>away_name.
      thenE (get away ''logo'' JNone) (\<lambda>away_logo.
      thenE (or_country countries away) (\<lambda>away_country.
      thenE (get comp' ''name'' JNone) (\<lambda>comp_name.
      thenE (get comp' ''logo'' JNone) (\<lambda>comp_logo.
      thenE (or_country countries comp') (\<lambda>country.
        let merged =
          foldl (\<lambda>m (k, v). AList.update k v m)
            (foldl (\<lambda>m (k, v). AList.update k v m) live detail_items)
            [(''odds'', JDict odds_struct),
             (''environment'', environment),
             (''events'', events),
             (''home_team'', py_or home_name (dget live ''home_name'' JNone)),
             (''home_logo'', home_logo),
             (''home_country'', home_country),
             (''away_team'', py_or away_name (dget live ''away_name'' JNone)),
             (''away_logo'', away_logo),
             (''away_country'', away_country),
             (''competition'', py_or comp_name (dget live ''competition_name'' JNone)),
             (''competition_logo'', comp_logo),
             (''country'', country),
             (''odds_raw'', odds_wrap)]
        in extract_summary_fields fetched_at merged)))))))))))))))))))))))))"

text \<open>The team name of one side of a summary.\<close>

definition summary_team_name :: "(string \<times> pyval) list \<Rightarrow> string \<Rightarrow> json option" where
  "summary_team_name summary side =
     (case map_of summary ''teams'' of
        Some (J teams) \<Rightarrow> Some (field (field teams side JNone) ''name'' JNone)
      | _ \<Rightarrow> None)"

section \<open>Competition Grouper\<close>













subsection \<open>The order as the specification words it\<close>














section \<open>Verified properties\<close>

subsection \<open>Equality of Python values\<close>

lemma py_eq_JInt: "py_eq v (JInt k) = (as_int v = Some k)"
  by (cases v) (auto split: option.splits)

lemma py_eq_JInt_ge2: "2 \<le> k \<Longrightarrow> py_eq v (JInt k) = (v = JInt k)"
  by (cases v) (auto split: option.splits)

lemma py_eq_cong_JInt: "py_eq a b \<Longrightarrow> py_eq a (JInt k) = py_eq b (JInt k)"
  by (cases a; cases b) (auto split: option.splits if_splits)

lemma py_eq_both_JInt: "py_eq a (JInt k) \<Longrightarrow> py_eq b (JInt k) \<Longrightarrow> py_eq a b"
  by (cases a; cases b) (auto split: option.splits if_splits)

declare py_eq.simps [simp del]


subsection \<open>Payload Accessor: \<^verbatim>\<open>first_result\<close>\<close>

lemma first_result_None: "first_result (JDict mapping) JNone = Inr (JDict [])"
  by (simp add: first_result_def thenE_def)

lemma first_result_absent:
  "map_of mapping (py_str key) = None \<Longrightarrow> first_result (JDict mapping) key = Inr (JDict [])"
  by (simp add: first_result_def dget_def thenE_def)

lemma first_result_non_dict:
  "map_of mapping (py_str key) = Some e \<Longrightarrow> \<not> is_dict e \<Longrightarrow> first_result (JDict mapping) key = Inr (JDict [])"
  by (simp add: first_result_def dget_def thenE_def)

lemma first_result_table_not_dict:
  "\<not> is_dict mapping \<Longrightarrow> key \<noteq> JNone \<Longrightarrow> first_result mapping key = Inl AttributeError"
  by (cases mapping) (simp_all add: first_result_def thenE_def)

lemma first_result_dict:
  assumes "key \<noteq> JNone" "map_of mapping (py_str key) = Some (JDict w)"
  shows "first_result (JDict mapping) key =
     Inr (case py_or (py_or (dget w ''results'' JNone) (dget w ''result'' JNone)) (JList []) of
            JList (x # xs) \<Rightarrow> x | _ \<Rightarrow> JDict [])"
  using assms
  by (simp add: first_result_def dget_def thenE_def Let_def split: json.splits list.splits)

text \<open>
  Claim C3. For every side table that is a dictionary and every key, \<^verbatim>\<open>first_result\<close>
  returns a value and never raises. It returns the first element of \<^verbatim>\<open>results\<close> when that field is a non-empty list,
  and the first element of \<^verbatim>\<open>result\<close> when \<^verbatim>\<open>results\<close> is missing or empty and
  \<^verbatim>\<open>result\<close> is a non-empty list. It returns the empty mapping for every malformed
  shape: key \<^verbatim>\<open>None\<close>, no entry under the key, an entry that is not a dictionary, an
  envelope in which neither field is a non-empty list, and a non-empty non-list value
  under \<^verbatim>\<open>results\<close>.
\<close>

theorem first_result_total:
  "(\<exists>v. first_result (JDict mapping) key = Inr v) \<and>
   (\<forall>w x xs. key \<noteq> JNone \<and> map_of mapping (py_str key) = Some (JDict w) \<and>
       map_of w ''results'' = Some (JList (x # xs)) \<longrightarrow> first_result (JDict mapping) key = Inr x) \<and>
   (\<forall>w x xs. key \<noteq> JNone \<and> map_of mapping (py_str key) = Some (JDict w) \<and>
       (map_of w ''results'' = None \<or> (\<exists>r. map_of w ''results'' = Some r \<and> \<not> truthy r)) \<and>
       map_of w ''result'' = Some (JList (x # xs)) \<longrightarrow> first_result (JDict mapping) key = Inr x) \<and>
   (key = JNone \<longrightarrow> first_result (JDict mapping) key = Inr (JDict [])) \<and>
   (map_of mapping (py_str key) = None \<longrightarrow> first_result (JDict mapping) key = Inr (JDict [])) \<and>
   (\<forall>e. map_of mapping (py_str key) = Some e \<and> \<not> is_dict e \<longrightarrow>
       first_result (JDict mapping) key = Inr (JDict [])) \<and>
   (\<forall>w. map_of mapping (py_str key) = Some (JDict w) \<and>
       (\<forall>f \<in> {''results'', ''result''}. \<forall>x xs. map_of w f \<noteq> Some (JList (x # xs))) \<longrightarrow>
       first_result (JDict mapping) key = Inr (JDict [])) \<and>
   (\<forall>w r. map_of mapping (py_str key) = Some (JDict w) \<and>
       map_of w ''results'' = Some r \<and> truthy r \<and> \<not> is_list r \<longrightarrow>
       first_result (JDict mapping) key = Inr (JDict []))"
proof (intro conjI allI impI)
  show "\<exists>v. first_result (JDict mapping) key = Inr v"
  proof (cases "key = JNone")
    case True then show ?thesis by (simp add: first_result_None)
  next
    case False
    show ?thesis
    proof (cases "map_of mapping (py_str key)")
      case None then show ?thesis by (simp add: first_result_absent)
    next
      case (Some e)
      show ?thesis
      proof (cases e)
        case (JDict w)
        with Some False show ?thesis by (simp add: first_result_dict)
      qed (use Some in \<open>simp_all add: first_result_non_dict\<close>)
    qed
  qed
next
  fix w x xs
  assume "key \<noteq> JNone \<and> map_of mapping (py_str key) = Some (JDict w) \<and>
       map_of w ''results'' = Some (JList (x # xs))"
  then show "first_result (JDict mapping) key = Inr x"
    by (simp add: first_result_dict dget_def py_or_def)
next
  fix w x xs
  assume "key \<noteq> JNone \<and> map_of mapping (py_str key) = Some (JDict w) \<and>
       (map_of w ''results'' = None \<or> (\<exists>r. map_of w ''results'' = Some r \<and> \<not> truthy r)) \<and>
       map_of w ''result'' = Some (JList (x # xs))"
  then show "first_result (JDict mapping) key = Inr x"
    by (auto simp add: first_result_dict dget_def py_or_def)
next
  assume "key = JNone" then show "first_result (JDict mapping) key = Inr (JDict [])"
    by (simp add: first_result_None)
next
  assume "map_of mapping (py_str key) = None"
  then show "first_result (JDict mapping) key = Inr (JDict [])" by (rule first_result_absent)
next
  fix e assume "map_of mapping (py_str key) = Some e \<and> \<not> is_dict e"
  then show "first_result (JDict mapping) key = Inr (JDict [])" by (simp add: first_result_non_dict)
next
  fix w
  assume a: "map_of mapping (py_str key) = Some (JDict w) \<and>
       (\<forall>f \<in> {''results'', ''result''}. \<forall>x xs. map_of w f \<noteq> Some (JList (x # xs)))"
  show "first_result (JDict mapping) key = Inr (JDict [])"
  proof (cases "key = JNone")
    case True then show ?thesis by (simp add: first_result_None)
  next
    case False
    with a show ?thesis
      by (auto simp add: first_result_dict dget_def py_or_def split: option.splits json.splits list.splits)
  qed
next
  fix w r
  assume a: "map_of mapping (py_str key) = Some (JDict w) \<and>
       map_of w ''results'' = Some r \<and> truthy r \<and> \<not> is_list r"
  show "first_result (JDict mapping) key = Inr (JDict [])"
  proof (cases "key = JNone")
    case True then show ?thesis by (simp add: first_result_None)
  next
    case False
    with a show ?thesis
      by (cases r) (auto simp add: first_result_dict dget_def py_or_def)
  qed
qed

theorem first_result_total_witness:
  "first_result (JDict [(''7'', JDict [(''results'', JList []), (''result'', JList [JStr ''team''])])]) (JInt 7)
     = Inr (JStr ''team'') \<and>
   first_result (JDict [(''7'', JDict [(''results'', JList [JStr ''r''])])]) (JInt 7) = Inr (JStr ''r'') \<and>
   first_result (JDict [(''7'', JStr ''text'')]) (JInt 7) = Inr (JDict []) \<and>
   first_result (JDict [(''7'', JDict [(''results'', JStr ''x''), (''result'', JList [JStr ''team''])])]) (JInt 7)
     = Inr (JDict []) \<and>
   first_result (JDict [(''7'', JDict [(''results'', JList [])])]) (JInt 7) = Inr (JDict []) \<and>
   first_result (JDict []) (JInt 7) = Inr (JDict []) \<and> first_result (JDict []) JNone = Inr (JDict [])"
proof -
  have k: "int_str 7 = ''7''" by code_simp
  note t = first_result_total
  show ?thesis
    apply (intro conjI)
    subgoal using t [of "[(''7'', JDict [(''results'', JList []), (''result'', JList [JStr ''team''])])]" "JInt 7"]
      by (simp add: k)
    subgoal using t [of "[(''7'', JDict [(''results'', JList [JStr ''r''])])]" "JInt 7"]
      by (simp add: k)
    subgoal using t [of "[(''7'', JStr ''text'')]" "JInt 7"] by (simp add: k)
    subgoal using t [of "[(''7'', JDict [(''results'', JStr ''x''), (''result'', JList [JStr ''team''])])]" "JInt 7"]
      by (simp add: k)
    subgoal using t [of "[(''7'', JDict [(''results'', JList [])])]" "JInt 7"] by (simp add: k)
    subgoal using t [of "[]" "JInt 7"] by simp
    subgoal using t [of "[]" "JNone"] by simp
    done
qed

subsection \<open>Payload Accessor: \<^verbatim>\<open>extract_status_id\<close>\<close>

lemma extract_status_id_primary:
  "map_of d ''status_id'' = Some sid \<Longrightarrow> truthy sid \<Longrightarrow> extract_status_id (JDict d) = Inr sid"
  by (simp add: extract_status_id_def thenE_def dget_def)

lemma extract_status_id_non_dict: "\<not> is_dict m \<Longrightarrow> extract_status_id m = Inl AttributeError"
  by (cases m) (simp_all add: extract_status_id_def thenE_def)

text \<open>
  Claim C4, evaluated at the status code 0 (``Abnormal''). The primary field is
  tested with \<^verbatim>\<open>or\<close>, so the present code 0 is not returned: without a score array the
  result is \<^verbatim>\<open>None\<close>, and with a score array the result is its element at index 1.
\<close>

theorem extract_status_id_zero:
  "extract_status_id (JDict [(''status_id'', JInt 0)]) = Inr JNone \<and>
   extract_status_id (JDict [(''status_id'', JInt 0), (''score'', JList [JStr ''m1'', JInt 2])])
     = Inr (JInt 2)"
  by (simp add: extract_status_id_def thenE_def dget_def)

subsection \<open>Odds Time-Window Selector\<close>

lemma is_digit_iff: "is_digit c \<longleftrightarrow> c \<in> set ''0123456789''"
proof -
  define n where "n = (of_char c :: nat)"
  have "48 \<le> n \<and> n \<le> 57 \<longleftrightarrow> n \<in> {48, 49, 50, 51, 52, 53, 54, 55, 56, 57}" by (simp; arith)
  moreover have "is_digit c \<longleftrightarrow> 48 \<le> n \<and> n \<le> 57"
    by (simp add: is_digit_def less_eq_char_def n_def)
  moreover have "c \<in> set ''0123456789'' \<longleftrightarrow> n \<in> (of_char ` set ''0123456789'')"
    unfolding n_def by (rule inj_image_mem_iff [OF inj_of_char, symmetric])
  moreover have "(of_char ` set ''0123456789'' :: nat set) = {48, 49, 50, 51, 52, 53, 54, 55, 56, 57}"
    by simp
  ultimately show ?thesis by simp
qed

lemma takeWhile_digits: "takeWhile is_digit s = leading_digits s"
  by (induction s) (simp_all add: is_digit_iff)

lemma leading_digits_all: "list_all is_digit (leading_digits s)"
  by (induction s) (simp_all add: is_digit_iff)

lemma units_first_snoc: "units_first (xs @ [d]) = units_first xs + 10 ^ length xs * digit_value d"
  by (induction xs) (simp_all add: digit_value_def algebra_simps)

lemma foldl_units:
  "foldl (\<lambda>a c. 10 * a + digit_value c) a ds = a * 10 ^ length ds + units_first (rev ds)"
  by (induction ds arbitrary: a) (simp_all add: units_first_snoc algebra_simps)

lemma int_of_digits_decimal: "int_of_digits ds = decimal ds"
  by (simp add: int_of_digits_def decimal_def foldl_units)

lemma digit_plain: "is_digit c \<Longrightarrow> \<not> int_space c \<and> c \<noteq> CHR ''-'' \<and> c \<noteq> CHR ''+''"
  by (auto simp: is_digit_iff int_space_def less_eq_char_def)

lemma digit_groups_digits: "list_all is_digit ds \<Longrightarrow> digit_groups acc ds = Some (acc @ ds)"
  by (induction ds arbitrary: acc) simp_all

lemma int_text_digits:
  assumes "ds \<noteq> []" "list_all is_digit ds"
  shows "int_text ds = int_digits ds"
proof -
  from assms obtain c cs where ds: "ds = c # cs" by (cases ds) auto
  from assms obtain bs b where ds': "ds = bs @ [b]" by (cases ds rule: rev_cases) auto
  have c: "is_digit c" using assms(2) by (simp add: ds)
  have "list_all is_digit (bs @ [b])" using assms(2) unfolding ds' .
  then have b: "is_digit b" by simp
  have "dropWhile int_space ds = ds" using c digit_plain [of c] by (simp add: ds)
  moreover have "dropWhile int_space (rev ds) = rev ds" using b digit_plain [of b] by (simp add: ds')
  ultimately have t: "rev (dropWhile int_space (rev (dropWhile int_space ds))) = ds" by simp
  have h: "hd ds \<noteq> CHR ''-''" "hd ds \<noteq> CHR ''+''" using c digit_plain [of c] by (simp_all add: ds)
  show ?thesis
    unfolding int_text_def t Let_def
    using h assms by (simp add: digit_groups_digits thenE_def int_digits_def)
qed

lemma safe_minute_eq:
  assumes "length (leading_digits (py_str v)) \<le> max_str_digits"
  shows "safe_minute v = Inr (leading_integer (py_str v))"
proof (cases "v = JNone")
  case True
  then show ?thesis by (simp add: safe_minute_def leading_integer_def)
next
  case False
  show ?thesis
  proof (cases "leading_digits (py_str v) = []")
    case True
    with False show ?thesis by (simp add: safe_minute_def leading_integer_def takeWhile_digits)
  next
    case nonempty: False
    have "int_text (leading_digits (py_str v)) = Inr (decimal (leading_digits (py_str v)))"
      using int_text_digits [OF nonempty leading_digits_all] assms
      by (simp add: int_digits_def int_of_digits_decimal)
    with False nonempty show ?thesis
      by (simp add: safe_minute_def leading_integer_def takeWhile_digits thenE_def)
  qed
qed

lemma safe_minute_limit:
  assumes "max_str_digits < length (leading_digits (py_str v))"
  shows "safe_minute v = Inl ValueError"
proof -
  from assms have ne: "leading_digits (py_str v) \<noteq> []" by auto
  then have "v \<noteq> JNone" by auto
  moreover have "int_text (leading_digits (py_str v)) = Inl ValueError"
    using int_text_digits [OF ne leading_digits_all] assms by (simp add: int_digits_def)
  ultimately show ?thesis using ne
    by (simp add: safe_minute_def takeWhile_digits thenE_def)
qed

lemma marker_items: "(\<exists>m. marker ent = Some m) = (is_list ent \<and> Suc 0 < length (items ent))"
  by (induction ent rule: marker.induct) simp_all

lemma marker_second: "marker ent = Some m \<Longrightarrow> items ent ! 1 = m"
  by (induction ent rule: marker.induct) simp_all

lemma entries_eq:
  "[ent. ent \<leftarrow> es, is_list ent \<and> length (items ent) > 1] = filter (\<lambda>e. marker e \<noteq> None) es"
  by (induction es) (simp_all add: marker_items)















lemma mapE_error:
  assumes "\<forall>x \<in> set xs. f x = Inl e \<or> (\<exists>y. f x = Inr y)" and "\<exists>x \<in> set xs. f x = Inl e"
  shows "mapE f xs = Inl e"
  using assms
proof (induction xs)
  case Nil
  then show ?case by simp
next
  case (Cons x xs)
  show ?case
  proof (cases "f x")
    case (Inl e')
    with Cons.prems(1) show ?thesis by (auto simp: thenE_def)
  next
    case (Inr y)
    with Cons.prems have "mapE f xs = Inl e" by (intro Cons.IH) auto
    with Inr show ?thesis by (simp add: thenE_def)
  qed
qed

text \<open>A marker whose leading integer has more digits than the interpreter converts makes
  both selectors raise.\<close>

lemma filter_by_time_limit:
  assumes "\<exists>ent \<in> set es. max_str_digits < marker_digits ent"
  shows "filter_by_time es = Inl ValueError"
proof -
  let ?f = "\<lambda>ent. thenE (safe_minute (items ent ! 1)) (\<lambda>m. Inr (m, ent))"
  have total: "?f ent = Inl ValueError \<or> (\<exists>y. ?f ent = Inr y)" for ent
    using safe_minute_eq [of "items ent ! 1"] safe_minute_limit [of "items ent ! 1"]
    by (cases "length (leading_digits (py_str (items ent ! 1))) \<le> max_str_digits")
       (auto simp: thenE_def)
  from assms obtain ent where ent: "ent \<in> set es" and big: "max_str_digits < marker_digits ent"
    by blast
  from big obtain m where m: "marker ent = Some m"
    by (cases "marker ent") (auto simp: marker_digits_def)
  with big have "max_str_digits < length (leading_digits (py_str (items ent ! 1)))"
    using marker_second [OF m] by (simp add: marker_digits_def)
  from safe_minute_limit [OF this] have "?f ent = Inl ValueError" by (simp add: thenE_def)
  moreover from ent m have "ent \<in> set (filter (\<lambda>e. marker e \<noteq> None) es)" by simp
  ultimately have "mapE ?f (filter (\<lambda>e. marker e \<noteq> None) es) = Inl ValueError"
    using total by (intro mapE_error) auto
  then have raised: "mapE ?f [ent. ent \<leftarrow> es, is_list ent \<and> length (items ent) > 1] = Inl ValueError"
    by (simp only: entries_eq)
  have "thenE (Inl ValueError) k = Inl ValueError" for k :: "(int option \<times> json) list \<Rightarrow> py_error + json list"
    by (simp add: thenE_def)
  then show ?thesis unfolding filter_by_time_def raised .
qed



subsection \<open>Country Inference\<close>

lemma matched_inner:
  "concat (map (\<lambda>indicator. if contains team indicator then [country] else []) indicators) =
     replicate (length (filter (contains team) indicators)) country"
  by (induction indicators) simp_all

lemma matched_countries_first:
  "(case matched_countries table team of [] \<Rightarrow> None | c # _ \<Rightarrow> Some c) =
     map_option fst (find (\<lambda>(country, indicators). list_ex (contains team) indicators) table)"
proof (induction table)
  case Nil
  show ?case by (simp add: matched_countries_def)
next
  case (Cons p table)
  obtain country indicators where p: "p = (country, indicators)" by (cases p)
  show ?case
  proof (cases "list_ex (contains team) indicators")
    case True
    then have "filter (contains team) indicators \<noteq> []"
      by (simp add: list_ex_iff filter_empty_conv)
    then obtain n where "length (filter (contains team) indicators) = Suc n"
      by (cases "filter (contains team) indicators") auto
    with True p show ?thesis
      by (simp add: matched_countries_def matched_inner)
  next
    case False
    then have "filter (contains team) indicators = []"
      by (simp add: list_ex_iff filter_empty_conv)
    with False p Cons.IH show ?thesis
      by (simp add: matched_countries_def matched_inner)
  qed
qed

lemma matched_countries_first_country:
  "(case matched_countries country_indicators team of [] \<Rightarrow> None | c # _ \<Rightarrow> Some c) =
     first_country team"
  by (simp only: matched_countries_first first_country_def)

lemma matched_countries_Nil:
  "(matched_countries country_indicators team = []) = (first_country team = None)"
  using matched_countries_first_country [of team, symmetric]
  by (cases "matched_countries country_indicators team") auto

lemma matched_countries_hd:
  "first_country team = Some c \<Longrightarrow> hd (matched_countries country_indicators team) = c"
  using matched_countries_first_country [of team, symmetric]
  by (cases "matched_countries country_indicators team") auto

lemma scan_indicators_eq:
  "scan_indicators text country indicators =
     (if list_ex (contains text) indicators then Some (title country) else None)"
  by (induction indicators) simp_all

lemma scan_countries_eq:
  "scan_countries text table =
     (case map_option fst (find (\<lambda>(country, indicators). list_ex (contains text) indicators) table) of
        Some c \<Rightarrow> title c | None \<Rightarrow> ''Unknown'')"
  by (induction table) (auto simp: scan_indicators_eq)

lemma scan_countries_first:
  "scan_countries text country_indicators =
     (case first_country text of Some c \<Rightarrow> title c | None \<Rightarrow> ''Unknown'')"
  by (simp add: scan_countries_eq first_country_def)

lemma infer_country_friendly:
  assumes "contains competition ''international''" "contains competition ''friendly''"
  shows "infer_country home_team away_team competition =
     (case (first_country home_team, first_country away_team) of
        (Some h, Some a) \<Rightarrow> if h \<noteq> a then ''International'' else title h
      | (Some h, None) \<Rightarrow> title h
      | (None, Some a) \<Rightarrow> title a
      | (None, None) \<Rightarrow>
          (case first_country (home_team @ '' '' @ away_team) of
             Some c \<Rightarrow> title c | None \<Rightarrow> ''Unknown''))"
proof (cases "first_country home_team")
  case None
  note h = None
  show ?thesis
  proof (cases "first_country away_team")
    case None
    with h assms show ?thesis
      by (simp add: infer_country_def Let_def scan_countries_first matched_countries_Nil)
  next
    case (Some a)
    with h assms show ?thesis
      by (simp add: infer_country_def Let_def scan_countries_first matched_countries_Nil
          matched_countries_hd)
  qed
next
  case (Some c)
  note h = Some
  show ?thesis
  proof (cases "first_country away_team")
    case None
    with h assms show ?thesis
      by (simp add: infer_country_def Let_def scan_countries_first matched_countries_Nil
          matched_countries_hd)
  next
    case (Some a)
    with h assms show ?thesis
      by (simp add: infer_country_def Let_def scan_countries_first matched_countries_Nil
          matched_countries_hd)
  qed
qed

lemma infer_country_from_teams_strings:
  assumes "dget d ''home_team'' (JStr []) = JStr home"
    and "dget d ''away_team'' (JStr []) = JStr away"
    and "dget d ''competition'' (JStr []) = JStr cname"
  shows "infer_country_from_teams (JDict d) = Inr (infer_country (lower home) (lower away) (lower cname))"
  using assms by (simp add: infer_country_from_teams_def thenE_def)

text \<open>
  Claim C8. For a match whose three fields are strings and whose lower-cased competition
  name contains both ``international'' and ``friendly'', with the country of a side being
  the first country of the table that has an indicator in the side's lower-cased team
  name: two sides with different countries give ``International''; exactly one side with
  a country gives that country, title-cased; two sides with the same country give that
  country, title-cased; and when neither side has a country the generic scan of the text
  \<open>home + " " + away\<close> gives its first matching country, title-cased, or ``Unknown''.
\<close>

theorem infer_country_international:
  assumes "dget d ''home_team'' (JStr []) = JStr home"
    and "dget d ''away_team'' (JStr []) = JStr away"
    and "dget d ''competition'' (JStr []) = JStr cname"
    and "contains (lower cname) ''international''" and "contains (lower cname) ''friendly''"
  shows "infer_country_from_teams (JDict d) = Inr
     (case (first_country (lower home), first_country (lower away)) of
        (Some h, Some a) \<Rightarrow> if h \<noteq> a then ''International'' else title h
      | (Some h, None) \<Rightarrow> title h
      | (None, Some a) \<Rightarrow> title a
      | (None, None) \<Rightarrow>
          (case first_country (lower home @ '' '' @ lower away) of
             Some c \<Rightarrow> title c | None \<Rightarrow> ''Unknown''))"
  using assms by (simp add: infer_country_from_teams_strings infer_country_friendly)

theorem infer_country_international_witness:
  "infer_country_from_teams (JDict [(''home_team'', JStr ''Brazil U23''),
      (''away_team'', JStr ''Argentina U23''), (''competition'', JStr ''International Friendly'')])
     = Inr ''International'' \<and>
   infer_country_from_teams (JDict [(''home_team'', JStr ''Brazil U23''),
      (''away_team'', JStr ''Fiji''), (''competition'', JStr ''International Friendly'')])
     = Inr ''Brazil'' \<and>
   infer_country_from_teams (JDict [(''home_team'', JStr ''Seoul Stars''),
      (''away_team'', JStr ''Daegu FC''), (''competition'', JStr ''International Friendly'')])
     = Inr ''South Korea'' \<and>
   infer_country_from_teams (JDict [(''home_team'', JStr ''New''),
      (''away_team'', JStr ''York''), (''competition'', JStr ''International Friendly'')])
     = Inr ''Usa'' \<and>
   infer_country_from_teams (JDict [(''home_team'', JStr ''Fiji''),
      (''away_team'', JStr ''Samoa''), (''competition'', JStr ''International Friendly'')])
     = Inr ''Unknown''"
proof -
  have cf: "contains (lower ''International Friendly'') ''international''"
    "contains (lower ''International Friendly'') ''friendly''" by code_simp+
  have lw: "lower ''Brazil U23'' = ''brazil u23''" "lower ''Argentina U23'' = ''argentina u23''"
    "lower ''Fiji'' = ''fiji''" "lower ''Samoa'' = ''samoa''" "lower ''Seoul Stars'' = ''seoul stars''"
    "lower ''Daegu FC'' = ''daegu fc''" "lower ''New'' = ''new''" "lower ''York'' = ''york''"
    by code_simp+
  have fc: "first_country ''brazil u23'' = Some ''brazil''"
    "first_country ''argentina u23'' = Some ''argentina''"
    "first_country ''fiji'' = None" "first_country ''samoa'' = None"
    "first_country ''seoul stars'' = Some ''south korea''"
    "first_country ''daegu fc'' = Some ''south korea''"
    "first_country ''new'' = None" "first_country ''york'' = None"
    "first_country ''new york'' = Some ''usa''"
    "first_country ''fiji samoa'' = None"
    by code_simp+
  have ti: "title ''brazil'' = ''Brazil''" "title ''south korea'' = ''South Korea''"
    "title ''usa'' = ''Usa''" by code_simp+
  note t = infer_country_international [where cname = "''International Friendly''", OF _ _ _ cf]
  show ?thesis
    apply (intro conjI)
    subgoal
      using t [where home = "''Brazil U23''" and away = "''Argentina U23''" and
          d = "[(''home_team'', JStr ''Brazil U23''), (''away_team'', JStr ''Argentina U23''),
               (''competition'', JStr ''International Friendly'')]"]
      by (simp add: dget_def lw fc)
    subgoal
      using t [where home = "''Brazil U23''" and away = "''Fiji''" and
          d = "[(''home_team'', JStr ''Brazil U23''), (''away_team'', JStr ''Fiji''),
               (''competition'', JStr ''International Friendly'')]"]
      by (simp add: dget_def lw fc ti)
    subgoal
      using t [where home = "''Seoul Stars''" and away = "''Daegu FC''" and
          d = "[(''home_team'', JStr ''Seoul Stars''), (''away_team'', JStr ''Daegu FC''),
               (''competition'', JStr ''International Friendly'')]"]
      by (simp add: dget_def lw fc ti)
    subgoal
      using t [where home = "''New''" and away = "''York''" and
          d = "[(''home_team'', JStr ''New''), (''away_team'', JStr ''York''),
               (''competition'', JStr ''International Friendly'')]"]
      by (simp add: dget_def lw fc ti)
    subgoal
      using t [where home = "''Fiji''" and away = "''Samoa''" and
          d = "[(''home_team'', JStr ''Fiji''), (''away_team'', JStr ''Samoa''),
               (''competition'', JStr ''International Friendly'')]"]
      by (simp add: dget_def lw fc ti)
    done
qed

subsection \<open>History Store\<close>

lemma updated_document_fresh:
  assumes "subscript batch ''timestamp'' = Inr ts" "subscript batch ''total_matches'' = Inr tm"
  shows "\<exists>doc. updated_document ny batch None = Inr (JDict doc) \<and>
           map_of doc ''history'' = Some (JList [batch])"
  using assms
  by (simp add: updated_document_def Let_def thenE_def dget_def MAX_HISTORY_ENTRIES_def update_conv')

lemma updated_document_append:
  assumes "subscript batch ''timestamp'' = Inr ts" "subscript batch ''total_matches'' = Inr tm"
    and "map_of d ''history'' = Some (JList h)" "h \<noteq> []"
  shows "\<exists>doc. updated_document ny batch (Some (JDict d)) = Inr (JDict doc) \<and>
           map_of doc ''history'' = Some (JList (drop (length h - 100) h @ [batch]))"
  using assms
  by (simp add: updated_document_def Let_def thenE_def dget_def MAX_HISTORY_ENTRIES_def update_conv')

lemma make_batch_fields:
  "make_batch now summaries = Inr b \<Longrightarrow>
     subscript b ''timestamp'' = Inr (JStr now) \<and> (\<exists>n. subscript b ''total_matches'' = Inr (JInt n))"
  by (auto simp: make_batch_def thenE_def split: sum.splits)

lemma save_fresh:
  assumes "make_batch now summaries = Inr b"
  shows "\<exists>file. save_match_summaries now ny summaries Missing = Inr (True, file) \<and>
           history_of file = Some [b]"
proof -
  from make_batch_fields [OF assms] obtain n where
    f: "subscript b ''timestamp'' = Inr (JStr now)" "subscript b ''total_matches'' = Inr (JInt n)"
    by blast
  from updated_document_fresh [OF f, of ny] obtain doc where
    "updated_document ny b None = Inr (JDict doc)" "map_of doc ''history'' = Some (JList [b])"
    by blast
  with assms show ?thesis
    by (simp add: save_match_summaries_def thenE_def history_of_def)
qed

lemma save_append:
  assumes "make_batch now summaries = Inr b" and "history_of file = Some h" "h \<noteq> []"
  shows "\<exists>file'. save_match_summaries now ny summaries file = Inr (True, file') \<and>
           history_of file' = Some (drop (length h - 100) h @ [b])"
proof -
  from assms(2) obtain d where fd: "file = Content (JDict d)"
    and d: "map_of d ''history'' = Some (JList h)"
    by (auto simp: history_of_def split: file_state.splits json.splits option.splits)
  from make_batch_fields [OF assms(1)] obtain n where
    f: "subscript b ''timestamp'' = Inr (JStr now)" "subscript b ''total_matches'' = Inr (JInt n)"
    by blast
  from updated_document_append [OF f d assms(3), of ny] obtain doc where
    "updated_document ny b (Some (JDict d)) = Inr (JDict doc)"
    "map_of doc ''history'' = Some (JList (drop (length h - 100) h @ [b]))"
    by blast
  with assms(1) fd show ?thesis
    by (simp add: save_match_summaries_def thenE_def history_of_def)
qed

lemma last_101_step:
  assumes "length h \<le> 101"
  shows "drop (length ((drop (length h - 100) h @ [b]) @ bs) - 101) ((drop (length h - 100) h @ [b]) @ bs)
       = drop (length (h @ b # bs) - 101) (h @ b # bs)"
proof (cases "length h \<le> 100")
  case True
  then show ?thesis by simp
next
  case False
  with assms have l: "length h = 101" by simp
  then obtain x t where h: "h = x # t" and t: "length t = 100" by (cases h) auto
  show ?thesis unfolding h using t by simp
qed

lemma save_all_history:
  assumes "list_all2 (\<lambda>c b. make_batch (fst c) (snd (snd c)) = Inr b) calls bs"
    and "history_of store = Some h" "h \<noteq> []" "length h \<le> 101"
  shows "history_of (save_all store calls) = Some (drop (length (h @ bs) - 101) (h @ bs))"
  using assms
proof (induction calls arbitrary: store h bs)
  case Nil
  then show ?case by simp
next
  case (Cons c calls)
  obtain now ny summaries where c: "c = (now, ny, summaries)" by (cases c)
  from Cons.prems(1) obtain b bs' where bs: "bs = b # bs'"
    and b: "make_batch now summaries = Inr b"
    and rest: "list_all2 (\<lambda>c b. make_batch (fst c) (snd (snd c)) = Inr b) calls bs'"
    by (auto simp: list_all2_Cons1 c)
  from save_append [OF b Cons.prems(2,3), of ny] obtain store' where
    s: "save_match_summaries now ny summaries store = Inr (True, store')"
    and h': "history_of store' = Some (drop (length h - 100) h @ [b])" by blast
  have "history_of (save_all store' calls) =
      Some (drop (length ((drop (length h - 100) h @ [b]) @ bs') - 101) ((drop (length h - 100) h @ [b]) @ bs'))"
    by (rule Cons.IH [OF rest h']) (use Cons.prems(4) in simp_all)
  then show ?case
    by (simp only: last_101_step [OF Cons.prems(4)] c bs save_all.simps s sum.case prod.case)
qed

lemma save_all_from_missing:
  assumes "list_all2 (\<lambda>c b. make_batch (fst c) (snd (snd c)) = Inr b) calls bs" "calls \<noteq> []"
  shows "history_of (save_all Missing calls) = Some (drop (length bs - 101) bs)"
proof -
  from assms obtain c calls' b bs' where calls: "calls = c # calls'" and bs: "bs = b # bs'"
    and b: "make_batch (fst c) (snd (snd c)) = Inr b"
    and rest: "list_all2 (\<lambda>c b. make_batch (fst c) (snd (snd c)) = Inr b) calls' bs'"
    by (cases calls) (auto simp: list_all2_Cons1)
  obtain now ny summaries where c: "c = (now, ny, summaries)" by (cases c)
  from save_fresh [of now summaries b ny] b c obtain store where
    s: "save_match_summaries now ny summaries Missing = Inr (True, store)"
    and h: "history_of store = Some [b]" by auto
  from save_all_history [OF rest h] have
    "history_of (save_all store calls') = Some (drop (length ([b] @ bs') - 101) ([b] @ bs'))" by simp
  then show ?thesis by (simp add: calls bs c s)
qed

text \<open>
  Claim C1, evaluated on 101 successive calls on an absent file, each with one summary
  and its own timestamp. Every call finds at most 100 stored batches, so the slice
  \<^verbatim>\<open>[-MAX_HISTORY_ENTRIES:]\<close> drops nothing before the append: the file ends with 101
  history entries, and its first entry is still the batch of the first call.
\<close>

theorem save_101_batches_keeps_101:
  "map_option length (history_of (save_all Missing
      (map (\<lambda>i. (nat_digits i, ''ny'', [JDict [(''match_id'', JStr ''m'')]])) [1..<102]))) = Some 101 \<and>
   map_option hd (history_of (save_all Missing
      (map (\<lambda>i. (nat_digits i, ''ny'', [JDict [(''match_id'', JStr ''m'')]])) [1..<102]))) =
     Some (JDict [(''timestamp'', JStr ''1''), (''total_matches'', JInt 1),
                  (''matches'', JDict [(''m'', JDict [(''match_id'', JStr ''m'')])])])"
proof -
  let ?call = "\<lambda>i. (nat_digits i, ''ny'', [JDict [(''match_id'', JStr ''m'')]])"
  let ?batch = "\<lambda>i. JDict [(''timestamp'', JStr (nat_digits i)), (''total_matches'', JInt 1),
                  (''matches'', JDict [(''m'', JDict [(''match_id'', JStr ''m'')])])]"
  have mb: "make_batch (nat_digits i) [JDict [(''match_id'', JStr ''m'')]] = Inr (?batch i)" for i
    by (simp add: make_batch_def grouped_step_def thenE_def dget_def)
  have "list_all2 (\<lambda>c b. make_batch (fst c) (snd (snd c)) = Inr b) (map ?call [1..<102]) (map ?batch [1..<102])"
    by (simp add: list_all2_map1 list_all2_map2 mb list_all2_same del: nat_digits.simps)
  from save_all_from_missing [OF this]
  have h: "history_of (save_all Missing (map ?call [1..<102])) = Some (map ?batch [1..<102])"
    by simp
  have one: "nat_digits (Suc 0) = ''1''" by code_simp
  have "hd (map ?batch [1..<102]) = ?batch 1"
    by (simp add: upt_conv_Cons del: nat_digits.simps)
  then show ?thesis unfolding h by (simp add: one del: nat_digits.simps)
qed

subsection \<open>Status Classifier\<close>

lemma get_count_count_status:
  "get_count (count_status sc v d) (JInt k) = get_count sc (JInt k) + (if py_eq v (JInt k) then 1 else 0)"
proof (induction sc v d rule: count_status.induct)
  case (1 status_id d)
  then show ?case by simp
next
  case (2 k' d' c rest status_id d)
  then show ?case
    using py_eq_cong_JInt [of k' status_id k] py_eq_both_JInt [of k' k status_id] by auto
qed

lemma count_loop:
  assumes "foldE count_match (sc, n) ms = Inr (sc', n')" "2 \<le> k"
  shows "get_count sc' (JInt k) =
     get_count sc (JInt k) + length (filter (\<lambda>m. extract_status_id m = Inr (JInt k)) ms)"
  using assms
proof (induction ms arbitrary: sc n)
  case Nil
  then show ?case by simp
next
  case (Cons m ms)
  from Cons.prems(1) obtain sc1 n1 where
    step: "count_match (sc, n) m = Inr (sc1, n1)" and rest: "foldE count_match (sc1, n1) ms = Inr (sc', n')"
    by (auto simp: thenE_def split: sum.splits)
  from step obtain st where st: "extract_status_id m = Inr st"
    by (auto simp: count_match_def thenE_def split: sum.splits)
  have "get_count sc1 (JInt k) = get_count sc (JInt k) + (if st = JInt k then 1 else 0)"
    using step st Cons.prems(2)
    by (auto simp: count_match_def thenE_def get_count_count_status py_eq_JInt_ge2 split: if_splits)
  with Cons.IH [OF rest Cons.prems(2)] st show ?case by simp
qed

lemma filter_in_play_sum:
  "(\<Sum>k\<leftarrow>[2, 3, 4, 5, 7]. length (filter (\<lambda>m. f m = Inr (JInt k)) ms)) =
     length (filter (\<lambda>m. \<exists>k \<in> {2, 3, 4, 5, 7}. f m = Inr (JInt k)) ms)"
  by (induction ms) auto

lemma step1_loop:
  "foldE (\<lambda>in_play_count match.
        thenE (extract_status_id match) (\<lambda>status_id.
          if in_ints status_id [2, 3, 4, 5, 6, 7] then Inr (in_play_count + 1)
          else Inr in_play_count)) c ms = Inr n \<Longrightarrow>
   n = c + length (filter (\<lambda>m. \<exists>k \<in> STATUS_FILTER. extract_status_id m = Inr (JInt k)) ms)"
proof (induction ms arbitrary: c)
  case Nil
  then show ?case by simp
next
  case (Cons m ms)
  from Cons.prems obtain st where st: "extract_status_id m = Inr st"
    by (auto simp: thenE_def split: sum.splits)
  have "in_ints st [2, 3, 4, 5, 6, 7] = (\<exists>k \<in> STATUS_FILTER. st = JInt k)"
    by (auto simp: in_ints_def STATUS_FILTER_def py_eq_JInt_ge2)
  with Cons.prems st Cons.IH [of "if in_ints st [2, 3, 4, 5, 6, 7] then c + 1 else c"]
  show ?case by (auto simp: thenE_def split: if_splits)
qed

lemma summary_in_play:
  assumes r: "map_of d ''results'' = Some (JList ms)"
    and s: "create_unified_status_summary (JDict d) = Inr s"
  shows "subscript s ''in_play_matches'' =
     Inr (JInt (int (length (filter (\<lambda>m. \<exists>k \<in> set in_play_status_ids.
        extract_status_id m = Inr (JInt k)) ms))))"
proof -
  from r have d: "d \<noteq> []" by auto
  from s r d obtain sc n where loop: "foldE count_match ([], 0) ms = Inr (sc, n)"
    by (auto simp: create_unified_status_summary_def thenE_def split: sum.splits)
  have c: "get_count sc (JInt k) = length (filter (\<lambda>m. extract_status_id m = Inr (JInt k)) ms)"
    if "2 \<le> k" for k
    using count_loop [OF loop that] by simp
  have "sum_list (map (\<lambda>sid. get_count sc (JInt sid)) in_play_status_ids) =
      length (filter (\<lambda>m. \<exists>k \<in> set in_play_status_ids. extract_status_id m = Inr (JInt k)) ms)"
    using filter_in_play_sum [of extract_status_id ms]
    by (simp add: in_play_status_ids_def c)
  with s r d loop show ?thesis
    by (auto simp: create_unified_status_summary_def thenE_def Let_def split: sum.splits)
qed

text \<open>
  Claim C5. The two in-play subsets are the fixed sets \<open>{2, 3, 4, 5, 7}\<close> (the unified status
  summary) and \<open>{2, 3, 4, 5, 6, 7}\<close> (the status filter); they differ exactly in the
  status 6. Whenever \<^verbatim>\<open>create_unified_status_summary\<close> returns, its \<^verbatim>\<open>in_play_matches\<close> is
  the number of matches whose extracted status id lies in the first set; whenever the
  footer loop of \<^verbatim>\<open>step1_main\<close> completes, its count is the number of matches whose
  extracted status id lies in the second set.
\<close>

theorem in_play_counts:
  "set in_play_status_ids = {2, 3, 4, 5, 7} \<and> STATUS_FILTER = {2, 3, 4, 5, 6, 7} \<and>
   STATUS_FILTER - set in_play_status_ids = {6} \<and>
   (\<forall>d ms s. map_of d ''results'' = Some (JList ms) \<and>
        create_unified_status_summary (JDict d) = Inr s \<longrightarrow>
      subscript s ''in_play_matches'' =
        Inr (JInt (int (length (filter (\<lambda>m. \<exists>k \<in> set in_play_status_ids.
          extract_status_id m = Inr (JInt k)) ms))))) \<and>
   (\<forall>ms n. step1_main_in_play_count ms = Inr n \<longrightarrow>
      n = length (filter (\<lambda>m. \<exists>k \<in> STATUS_FILTER. extract_status_id m = Inr (JInt k)) ms))"
proof (intro conjI allI impI)
  show "set in_play_status_ids = {2, 3, 4, 5, 7}" by (simp add: in_play_status_ids_def)
  show "STATUS_FILTER = {2, 3, 4, 5, 6, 7}" by (simp add: STATUS_FILTER_def)
  show "STATUS_FILTER - set in_play_status_ids = {6}"
    by (auto simp: in_play_status_ids_def STATUS_FILTER_def)
next
  fix d ms s
  assume "map_of d ''results'' = Some (JList ms) \<and> create_unified_status_summary (JDict d) = Inr s"
  then show "subscript s ''in_play_matches'' =
        Inr (JInt (int (length (filter (\<lambda>m. \<exists>k \<in> set in_play_status_ids.
          extract_status_id m = Inr (JInt k)) ms))))"
    using summary_in_play by blast
next
  fix ms n
  assume "step1_main_in_play_count ms = Inr n"
  then show "n = length (filter (\<lambda>m. \<exists>k \<in> STATUS_FILTER. extract_status_id m = Inr (JInt k)) ms)"
    using step1_loop [of 0 ms n] by (simp add: step1_main_in_play_count_def)
qed

theorem in_play_counts_witness:
  "thenE (create_unified_status_summary (JDict [(''results'',
       JList [JDict [(''status_id'', JInt 2)], JDict [(''status_id'', JInt 6)],
              JDict [(''status_id'', JInt 7)], JDict [(''status_id'', JInt 8)],
              JDict [(''score'', JList [JStr ''m'', JInt 3])], JDict []])]))
     (\<lambda>s. subscript s ''in_play_matches'') = Inr (JInt 3) \<and>
   step1_main_in_play_count
      [JDict [(''status_id'', JInt 2)], JDict [(''status_id'', JInt 6)],
       JDict [(''status_id'', JInt 7)], JDict [(''status_id'', JInt 8)],
       JDict [(''score'', JList [JStr ''m'', JInt 3])], JDict []] = Inr 4"
proof -
  let ?ms = "[JDict [(''status_id'', JInt 2)], JDict [(''status_id'', JInt 6)],
              JDict [(''status_id'', JInt 7)], JDict [(''status_id'', JInt 8)],
              JDict [(''score'', JList [JStr ''m'', JInt 3])], JDict []]"
  have ex: "extract_status_id (JDict [(''status_id'', JInt i)]) = Inr (if i = 0 then JNone else JInt i)" for i
    by (simp add: extract_status_id_def thenE_def dget_def)
  have ex2: "extract_status_id (JDict [(''score'', JList [JStr ''m'', JInt 3])]) = Inr (JInt 3)"
    "extract_status_id (JDict []) = Inr JNone"
    by (simp_all add: extract_status_id_def thenE_def dget_def)
  have "case create_unified_status_summary (JDict [(''results'', JList ?ms)]) of
          Inr s \<Rightarrow> True | Inl e \<Rightarrow> False"
    by code_simp
  then obtain s where s: "create_unified_status_summary (JDict [(''results'', JList ?ms)]) = Inr s"
    by (auto split: sum.splits)
  have "case step1_main_in_play_count ?ms of Inr n \<Rightarrow> True | Inl e \<Rightarrow> False"
    by code_simp
  then obtain n where n: "step1_main_in_play_count ?ms = Inr n"
    by (auto split: sum.splits)
  note t = in_play_counts
  have a: "subscript s ''in_play_matches'' = Inr (JInt 3)"
    using t [THEN conjunct2, THEN conjunct2, THEN conjunct2, THEN conjunct1, rule_format,
        of "[(''results'', JList ?ms)]" ?ms s] s
    by (simp add: ex ex2 in_play_status_ids_def)
  have b: "n = 4"
    using t [THEN conjunct2, THEN conjunct2, THEN conjunct2, THEN conjunct2, rule_format, of ?ms n] n
    by (simp add: ex ex2 STATUS_FILTER_def)
  show ?thesis using a b s n by (simp add: thenE_def)
qed

subsection \<open>Environment Interpreter\<close>

text \<open>
  Claim C6, evaluated on an environment whose wind is the text ``strong'' and on a match
  without environment. \<^verbatim>\<open>extract_environment\<close> resolves \<^verbatim>\<open>wind_value\<close> to \<^verbatim>\<open>None\<close>, then
  takes \<^verbatim>\<open>wv = parsed.get("wind_value") or 0\<close> and derives the category ``Calm'' from that
  default. Its sibling \<^verbatim>\<open>process_environment_like_step2\<close> keeps the text and sets no
  \<^verbatim>\<open>wind_description\<close> for the same environment. A wind text made of a lone minus sign
  matches the pattern and makes \<^verbatim>\<open>float\<close> raise.
\<close>

theorem unparsed_wind_is_calm:
  "thenE (extract_environment [(''environment'', JDict [(''wind'', JStr ''strong'')])])
     (\<lambda>parsed. Inr (map_of parsed ''wind_value'', map_of parsed ''wind_description''))
     = Inr (Some (J JNone), Some (J (JStr ''Calm''))) \<and>
   thenE (extract_environment [])
     (\<lambda>parsed. Inr (map_of parsed ''wind_value'', map_of parsed ''wind_description''))
     = Inr (Some (J JNone), Some (J (JStr ''Calm''))) \<and>
   thenE (process_environment_like_step2 (JDict [(''wind'', JStr ''strong'')]))
     (\<lambda>parsed. Inr (map_of parsed ''wind'', map_of parsed ''wind_description''))
     = Inr (Some (J (JStr ''strong'')), None) \<and>
   extract_environment [(''environment'', JDict [(''wind'', JStr ''-'')])] = Inl ValueError"
  by code_simp

subsection \<open>Odds block: both teams to score\<close>

lemma map_of_rev_snoc:
  "map_of (rev (xs @ [(k, v)])) = (map_of (rev xs))(k \<mapsto> v)"
  by (simp add: fun_eq_iff)







text \<open>The odds block of a summary is the result of \<^verbatim>\<open>extract_odds\<close> on the merged record.\<close>

lemma summary_odds_block:
  assumes "extract_summary_fields fetched_at match = Inr summary"
  shows "\<exists>data. extract_odds match = Inr data \<and> map_of summary ''odds'' = Some (J (JDict data))"
  using assms
  by (auto simp: extract_summary_fields_def thenE_def split: sum.splits)



subsection \<open>Entity Resolver/Merger: team names\<close>

lemma summary_team_name_eq:
  assumes "extract_summary_fields fetched_at match = Inr summary"
  shows "summary_team_name summary ''home'' = Some (dget match ''home_team'' (JStr ''Unknown''))"
    and "summary_team_name summary ''away'' = Some (dget match ''away_team'' (JStr ''Unknown''))"
  using assms
  by (auto simp: extract_summary_fields_def thenE_def summary_team_name_def team_block_def
      field_def dget_def Let_def split: sum.splits prod.splits)

text \<open>
  Claim C7, evaluated on a stub whose team ids have no entry in the team table and that
  carries no inline names, and on a stub without team ids. The merged record always has
  the keys \<^verbatim>\<open>home_team\<close> and \<^verbatim>\<open>away_team\<close>, here bound to \<^verbatim>\<open>None\<close>, so the default of
  \<^verbatim>\<open>match.get("home_team", "Unknown")\<close> is not used: the team names of the summary are
  \<^verbatim>\<open>None\<close>, not a placeholder string.
\<close>

theorem unresolved_team_name_is_none:
  "thenE (merge_and_summarize ''now''
            [(''id'', JStr ''m1''), (''home_team_id'', JStr ''t1''), (''away_team_id'', JStr ''t2'')]
            [(''team_info'', JDict [(''t3'', JDict [(''results'', JList [JDict [(''name'', JStr ''Third FC'')]])])])])
     (\<lambda>summary. Inr (summary_team_name summary ''home'', summary_team_name summary ''away''))
     = Inr (Some JNone, Some JNone) \<and>
   thenE (merge_and_summarize ''now'' [(''id'', JStr ''m1'')] [])
     (\<lambda>summary. Inr (summary_team_name summary ''home'', summary_team_name summary ''away''))
     = Inr (Some JNone, Some JNone)"
  by code_simp

subsection \<open>Competition Grouper\<close>


































end
